theory Spec2Isabelle
  imports Complex_Main
begin

section \<open>Strings and numbers of the host language\<close>

text \<open>
  A JavaScript string is a sequence of UTF-16 code units: \<^verbatim>\<open>length\<close> counts code units,
  and a regular expression without the \<^verbatim>\<open>u\<close> flag matches code unit by code unit. A
  code unit is modelled by its number; \<open>js\<close> turns an ASCII literal into such a string.
  Numbers are IEEE doubles in the source. The score is integer valued and modelled by
  \<open>int\<close>. Entropy is modelled by \<open>real\<close>: it is at most 7 times the length of the
  password, so only the rounding of doubles is left out. The power of 2 taken of it
  overflows, and is modelled with its overflow (\<open>jsdouble\<close>).
\<close>

type_synonym code_unit = nat
type_synonym jsstring = "code_unit list"

definition js :: "string \<Rightarrow> jsstring" where
  "js s = map of_char s"

text \<open>The character classes \<^verbatim>\<open>[a-z]\<close>, \<^verbatim>\<open>[A-Z]\<close>, \<^verbatim>\<open>\d\<close> and
  \<^verbatim>\<open>[!@#$%^&*(),.?":{}|<>]\<close> (code unit 34 is the double quote).\<close>

definition is_lower :: "code_unit \<Rightarrow> bool" where
  "is_lower c = (97 \<le> c \<and> c \<le> 122)"

definition is_upper :: "code_unit \<Rightarrow> bool" where
  "is_upper c = (65 \<le> c \<and> c \<le> 90)"

definition is_digit :: "code_unit \<Rightarrow> bool" where
  "is_digit c = (48 \<le> c \<and> c \<le> 57)"

definition special_chars :: jsstring where
  "special_chars = js ''!@#$%^&*(),.?'' @ [34] @ js '':{}|<>''"

definition is_special :: "code_unit \<Rightarrow> bool" where
  "is_special c = List.member special_chars c"

text \<open>\<^verbatim>\<open>/[...]/.test(s)\<close>: some code unit of \<open>s\<close> is in the class.\<close>

definition regex_class_test :: "(code_unit \<Rightarrow> bool) \<Rightarrow> jsstring \<Rightarrow> bool" where
  "regex_class_test cls s = list_ex cls s"

text \<open>The dot of a regular expression matches every code unit but the four line
  terminators LF, CR, U+2028 and U+2029.\<close>

definition dot_matches :: "code_unit \<Rightarrow> bool" where
  "dot_matches c = (c \<noteq> 10 \<and> c \<noteq> 13 \<and> c \<noteq> 8232 \<and> c \<noteq> 8233)"

text \<open>\<^verbatim>\<open>/(.)\1{2,}/.test(s)\<close>: at some position a code unit matched by the dot is followed
  by at least two copies of itself.\<close>

fun test_repeated :: "jsstring \<Rightarrow> bool" where
  "test_repeated (a # b # c # rest) =
     ((dot_matches a \<and> b = a \<and> c = a) \<or> test_repeated (b # c # rest))"
| "test_repeated _ = False"

text \<open>\<^verbatim>\<open>/w1|w2|...|wn/.test(s)\<close> for literal alternatives: one of them starts at some
  position of \<open>s\<close>.\<close>

definition starts_with :: "jsstring \<Rightarrow> jsstring \<Rightarrow> bool" where
  "starts_with w s = (take (length w) s = w)"

fun regex_alt_test :: "jsstring list \<Rightarrow> jsstring \<Rightarrow> bool" where
  "regex_alt_test alts [] = list_ex (\<lambda>w. w = []) alts"
| "regex_alt_test alts (c # cs) =
     (list_ex (\<lambda>w. starts_with w (c # cs)) alts \<or> regex_alt_test alts cs)"

text \<open>
  With the \<^verbatim>\<open>i\<close> flag (and no \<^verbatim>\<open>u\<close> flag) both sides are compared after
  Canonicalize, which upper-cases a code unit but never maps a code unit from 128 on to
  one below 128. The alternatives here are ASCII letters, so only the ASCII part of
  Canonicalize can be observed; the other code units are left as they are.
\<close>

definition canonicalize :: "code_unit \<Rightarrow> code_unit" where
  "canonicalize c = (if 97 \<le> c \<and> c \<le> 122 then c - 32 else c)"

definition regex_alt_test_i :: "jsstring list \<Rightarrow> jsstring \<Rightarrow> bool" where
  "regex_alt_test_i alts s = regex_alt_test (map (map canonicalize) alts) (map canonicalize s)"

definition sequential_numbers :: "jsstring list" where
  "sequential_numbers = map js
     [''012'', ''123'', ''234'', ''345'', ''456'', ''567'', ''678'', ''789'', ''890'']"

definition sequential_letters :: "jsstring list" where
  "sequential_letters = map js
     [''abc'', ''bcd'', ''cde'', ''def'', ''efg'', ''fgh'', ''ghi'', ''hij'', ''ijk'', ''jkl'',
      ''klm'', ''lmn'', ''mno'', ''nop'', ''opq'', ''pqr'', ''qrs'', ''rst'', ''stu'', ''tuv'',
      ''uvw'', ''vwx'', ''wxy'', ''xyz'']"

definition hasRepeatedChars :: "jsstring \<Rightarrow> bool" where
  "hasRepeatedChars password = test_repeated password"

definition hasSequentialNumbers :: "jsstring \<Rightarrow> bool" where
  "hasSequentialNumbers password = regex_alt_test sequential_numbers password"

definition hasSequentialLetters :: "jsstring \<Rightarrow> bool" where
  "hasSequentialLetters password = regex_alt_test_i sequential_letters password"

text \<open>
  \<^verbatim>\<open>toLowerCase\<close>: ASCII capitals, and the Kelvin sign U+212A, which lower-cases to
  \<^verbatim>\<open>k\<close>. Every other code unit lower-cases to a string with a code unit from 128 on;
  the result is only compared with the ASCII entries of the denylist, so these units are
  left as they are.
\<close>

definition toLowerCase :: "jsstring \<Rightarrow> jsstring" where
  "toLowerCase s =
     map (\<lambda>c. if 65 \<le> c \<and> c \<le> 90 then c + 32 else if c = 8490 then 107 else c) s"

text \<open>\<^verbatim>\<open>Math.round\<close>: the integer nearest to the argument, a half rounded up.\<close>

definition Math_round :: "real \<Rightarrow> int" where
  "Math_round x = \<lfloor>x + 1 / 2\<rfloor>"

text \<open>The decimal form of an integer, as a template literal prints a whole number below
  \<open>10\<^sup>2\<^sup>1\<close>.\<close>

function digits_of :: "nat \<Rightarrow> jsstring" where
  "digits_of n = (if n < 10 then [48 + n] else digits_of (n div 10) @ [48 + n mod 10])"
  by pat_completeness auto
termination
  by (relation "measure (\<lambda>n. n)") auto

declare digits_of.simps [simp del]

definition number_to_string :: "int \<Rightarrow> jsstring" where
  "number_to_string n = (if n < 0 then 45 # digits_of (nat (- n)) else digits_of (nat n))"

section \<open>The password analysis\<close>

definition COMMON_PASSWORDS :: "jsstring list" where
  "COMMON_PASSWORDS = map js
     [''password'', ''123456'', ''123456789'', ''qwerty'', ''abc123'', ''password123'',
      ''admin'', ''letmein'', ''welcome'', ''monkey'', ''1234567890'', ''dragon'',
      ''pass'', ''master'', ''hello'', ''freedom'', ''whatever'', ''qazwsx'',
      ''trustno1'', ''jordan'', ''harley'', ''robert'', ''matthew'', ''jordan23'',
      ''password1'', ''000000'', ''superman'', ''jennifer'', ''joshua'', ''hunter'',
      ''baseball'', ''michael'', ''tigger'', ''michelle'', ''jordan'', ''mustang'',
      ''liverpool'', ''football'', ''access'', ''buster'', ''soccer'', ''hockey'',
      ''killer'', ''george'', ''computer'', ''michelle'', ''jessica'', ''pepper'',
      ''prince'', ''shadow'', ''cheese'', ''dakota'', ''sunshine'', ''iloveyou'',
      ''princess'', ''hannah'', ''red123'', ''alexander'', ''slayer'', ''qwerty123'',
      ''ashley'', ''thomas'', ''helicopter'', ''joshua'', ''mustang'', ''thunder'']"

text \<open>\<^verbatim>\<open>calculateEntropy\<close>: the statements that build \<^verbatim>\<open>charSpace\<close>, then the returned
  expression, where \<^verbatim>\<open>charSpace || 1\<close> is 1 when \<^verbatim>\<open>charSpace\<close> is 0.\<close>

definition charSpaceOf :: "jsstring \<Rightarrow> nat" where
  "charSpaceOf password =
     (let charSpace = (0::nat);
          hasLowercase = regex_class_test is_lower password;
          hasUppercase = regex_class_test is_upper password;
          hasNumbers = regex_class_test is_digit password;
          hasSpecialChars = regex_class_test is_special password;
          charSpace = (if hasLowercase then charSpace + 26 else charSpace);
          charSpace = (if hasUppercase then charSpace + 26 else charSpace);
          charSpace = (if hasNumbers then charSpace + 10 else charSpace);
          charSpace = (if hasSpecialChars then charSpace + 32 else charSpace)
      in charSpace)"

definition calculateEntropy :: "jsstring \<Rightarrow> real" where
  "calculateEntropy password =
     (let charSpace = charSpaceOf password
      in real (length password) * log 2 (real (if charSpace = 0 then 1 else charSpace)))"

text \<open>
  A double that is a real number or \<^verbatim>\<open>Infinity\<close>. \<^verbatim>\<open>Math.pow(2, x)\<close> is \<^verbatim>\<open>Infinity\<close>
  from \<open>x = 1024\<close> on: \<open>2\<^sup>1\<^sup>0\<^sup>2\<^sup>4\<close> is above the largest double, and for every double
  \<open>x\<close> below 1024 the power is below it. Dividing \<^verbatim>\<open>Infinity\<close> by a positive number
  gives \<^verbatim>\<open>Infinity\<close>, which is less than no number; a template literal prints it, rounded
  or not, as \<^verbatim>\<open>Infinity\<close>.
\<close>

datatype jsdouble = Finite real | Infinity

definition Math_pow2 :: "real \<Rightarrow> jsdouble" where
  "Math_pow2 x = (if x \<ge> 1024 then Infinity else Finite (2 powr x))"

definition double_div :: "jsdouble \<Rightarrow> real \<Rightarrow> jsdouble" where
  "double_div x d = (case x of Finite r \<Rightarrow> Finite (r / d) | Infinity \<Rightarrow> Infinity)"

definition double_less :: "jsdouble \<Rightarrow> real \<Rightarrow> bool" where
  "double_less x k = (case x of Finite r \<Rightarrow> r < k | Infinity \<Rightarrow> False)"

definition rounded_to_string :: "jsdouble \<Rightarrow> jsstring" where
  "rounded_to_string x =
     (case x of Finite r \<Rightarrow> number_to_string (Math_round r) | Infinity \<Rightarrow> js ''Infinity'')"

record time_to_crack =
  seconds :: jsdouble
  display :: jsstring

definition calculateCrackTime :: "real \<Rightarrow> time_to_crack" where
  "calculateCrackTime entropy =
     (let guessesPerSecond = (10::real) ^ 9;
          totalCombinations = Math_pow2 entropy;
          averageGuesses = double_div totalCombinations 2;
          secs = double_div averageGuesses guessesPerSecond
      in if double_less secs 1 then \<lparr>seconds = secs, display = js ''Instantly''\<rparr>
         else if double_less secs 60 then
           \<lparr>seconds = secs, display = rounded_to_string secs @ js '' seconds''\<rparr>
         else if double_less secs 3600 then
           \<lparr>seconds = secs,
            display = rounded_to_string (double_div secs 60) @ js '' minutes''\<rparr>
         else if double_less secs 86400 then
           \<lparr>seconds = secs,
            display = rounded_to_string (double_div secs 3600) @ js '' hours''\<rparr>
         else if double_less secs 2629746 then
           \<lparr>seconds = secs,
            display = rounded_to_string (double_div secs 86400) @ js '' days''\<rparr>
         else if double_less secs 31556952 then
           \<lparr>seconds = secs,
            display = rounded_to_string (double_div secs 2629746) @ js '' months''\<rparr>
         else if double_less secs 315569520 then
           \<lparr>seconds = secs,
            display = rounded_to_string (double_div secs 31556952) @ js '' years''\<rparr>
         else if double_less secs 3155695200 then
           \<lparr>seconds = secs,
            display = rounded_to_string (double_div secs 315569520) @ js '' decades''\<rparr>
         else \<lparr>seconds = secs, display = js ''Centuries''\<rparr>)"

datatype strength = VeryWeak | Weak | Fair | Good | Strong | VeryStrong

record check_map =
  hasLength :: bool
  hasUppercase :: bool
  hasLowercase :: bool
  hasNumbers :: bool
  hasSpecialChars :: bool
  isCommon :: bool

text \<open>The count of a breach result is what \<^verbatim>\<open>parseInt\<close> returns: a whole number, NaN or an
  infinity.\<close>

datatype jsnum = NaN | NegInfinity | Num int | PosInfinity

record AnalysisResult =
  score :: int
  strength :: strength
  color :: jsstring
  suggestions :: "jsstring list"
  entropy :: real
  crackTime :: jsstring
  timeToCrack :: time_to_crack
  checks :: check_map
  isBreached :: "bool option"
  breachCount :: "jsnum option"

definition computeChecks :: "jsstring \<Rightarrow> check_map" where
  "computeChecks password =
     \<lparr>hasLength = (length password \<ge> 8),
      hasUppercase = regex_class_test is_upper password,
      hasLowercase = regex_class_test is_lower password,
      hasNumbers = regex_class_test is_digit password,
      hasSpecialChars = regex_class_test is_special password,
      isCommon = List.member COMMON_PASSWORDS (toLowerCase password)\<rparr>"

text \<open>The score is built by the statements of \<^verbatim>\<open>analyzePassword\<close> in their order; each
  group of statements under one comment of the source is one function on the running
  score.\<close>

definition lengthScoring :: "check_map \<Rightarrow> jsstring \<Rightarrow> int \<Rightarrow> int" where
  "lengthScoring cks password score0 =
     (let score = score0;
          score = (if hasLength cks then score + 20 else score);
          score = (if length password \<ge> 12 then score + 10 else score);
          score = (if length password \<ge> 16 then score + 10 else score);
          score = (if length password \<ge> 20 then score + 5 else score)
      in score)"

definition characterTypeScoring :: "check_map \<Rightarrow> int \<Rightarrow> int" where
  "characterTypeScoring cks score0 =
     (let score = score0;
          score = (if hasUppercase cks then score + 15 else score);
          score = (if hasLowercase cks then score + 15 else score);
          score = (if hasNumbers cks then score + 15 else score);
          score = (if hasSpecialChars cks then score + 20 else score)
      in score)"

definition commonPenalty :: "check_map \<Rightarrow> int \<Rightarrow> int" where
  "commonPenalty cks score0 = (if isCommon cks then score0 - 40 else score0)"

definition entropyBonus :: "real \<Rightarrow> int \<Rightarrow> int" where
  "entropyBonus e score0 =
     (let score = score0;
          score = (if e > 40 then score + 5 else score);
          score = (if e > 60 then score + 10 else score);
          score = (if e > 80 then score + 10 else score)
      in score)"

definition patternPenalties :: "jsstring \<Rightarrow> int \<Rightarrow> int" where
  "patternPenalties password score0 =
     (let score = score0;
          score = (if hasRepeatedChars password then score - 10 else score);
          score = (if hasSequentialNumbers password then score - 10 else score);
          score = (if hasSequentialLetters password then score - 10 else score)
      in score)"

definition rawScore :: "jsstring \<Rightarrow> int" where
  "rawScore password =
     (let cks = computeChecks password;
          e = calculateEntropy password;
          score = 0;
          score = lengthScoring cks password score;
          score = characterTypeScoring cks score;
          score = commonPenalty cks score;
          score = entropyBonus e score;
          score = patternPenalties password score
      in score)"

definition generateSuggestions :: "check_map \<Rightarrow> jsstring \<Rightarrow> jsstring list" where
  "generateSuggestions cks password =
     (let sg = [];
          sg = (if \<not> hasLength cks then sg @ [js ''Use at least 8 characters''] else sg);
          sg = (if \<not> hasUppercase cks then sg @ [js ''Add uppercase letters (A-Z)''] else sg);
          sg = (if \<not> hasLowercase cks then sg @ [js ''Add lowercase letters (a-z)''] else sg);
          sg = (if \<not> hasNumbers cks then sg @ [js ''Include numbers (0-9)''] else sg);
          sg = (if \<not> hasSpecialChars cks
                then sg @ [js ''Add special characters (!@#$%^&*)''] else sg);
          sg = (if length password < 12
                then sg @ [js ''Consider using 12+ characters for better security''] else sg);
          sg = (if isCommon cks then sg @ [js ''Avoid common passwords''] else sg);
          sg = (if hasRepeatedChars password
                then sg @ [js ''Avoid repeating characters''] else sg);
          sg = (if hasSequentialNumbers password
                then sg @ [js ''Avoid sequential numbers''] else sg);
          sg = (if length sg = 0
                then sg @ [js ''Excellent! Your password meets all security criteria'']
                else sg)
      in sg)"

definition determineStrength :: "int \<Rightarrow> strength \<times> jsstring" where
  "determineStrength score0 =
     (if score0 \<ge> 90 then (VeryStrong, js ''#10b981'')
      else if score0 \<ge> 75 then (Strong, js ''#22c55e'')
      else if score0 \<ge> 60 then (Good, js ''#3b82f6'')
      else if score0 \<ge> 40 then (Fair, js ''#eab308'')
      else if score0 \<ge> 20 then (Weak, js ''#f97316'')
      else (VeryWeak, js ''#ef4444''))"

definition emptyResult :: AnalysisResult where
  "emptyResult =
     \<lparr>score = 0,
      strength = VeryWeak,
      color = js ''#ef4444'',
      suggestions = [js ''Enter a password to get started''],
      entropy = 0,
      crackTime = js ''Instantly'',
      timeToCrack = \<lparr>seconds = Finite 0, display = js ''Instantly''\<rparr>,
      checks = \<lparr>hasLength = False, hasUppercase = False, hasLowercase = False,
                hasNumbers = False, hasSpecialChars = False, isCommon = False\<rparr>,
      isBreached = None,
      breachCount = None\<rparr>"

definition analyzePassword :: "jsstring \<Rightarrow> AnalysisResult" where
  "analyzePassword password =
     (if password = [] then emptyResult
      else
        let cks = computeChecks password;
            e = calculateEntropy password;
            ttc = calculateCrackTime e;
            sc = max 0 (min 100 (rawScore password));
            sg = generateSuggestions cks password;
            (st, col) = determineStrength sc
        in \<lparr>score = sc,
            strength = st,
            color = col,
            suggestions = sg,
            entropy = real_of_int (Math_round (e * 10)) / 10,
            crackTime = display ttc,
            timeToCrack = ttc,
            checks = cks,
            isBreached = None,
            breachCount = None\<rparr>)"

section \<open>The breach checker\<close>

text \<open>A cache entry and the result of a lookup; both have the source's fields
  \<^verbatim>\<open>isBreached\<close> and \<^verbatim>\<open>count\<close>, here with a prefix.\<close>

record breach_cache_entry =
  cached_isBreached :: bool
  cached_count :: jsnum
  timestamp :: int

record breach_info =
  info_isBreached :: bool
  info_count :: jsnum

text \<open>What \<^verbatim>\<open>await fetch(url)\<close> gives: the promise rejects, or a response arrives with
  its \<^verbatim>\<open>ok\<close> flag and a body whose reading by \<^verbatim>\<open>response.text()\<close> may still reject
  (\<open>None\<close>).\<close>

datatype fetch_result = FetchRejected | FetchResponse bool "jsstring option"

datatype js_error = NetworkError | BreachDbError | TypeError

datatype response = Json AnalysisResult | BadRequest | InternalServerError

text \<open>
  What the code takes from its runtime and its collaborators: the SHA-1 of the password
  as upper-case hex, the range endpoint (by hash prefix), \<^verbatim>\<open>parseInt\<close>,
  \<^verbatim>\<open>toLocaleString\<close>, the clock at the cache check and at the cache write, SHA-256 as
  hex, and the two persistence calls, which return normally (\<open>True\<close>) or throw.
\<close>

record env =
  sha1_hex_upper :: "jsstring \<Rightarrow> jsstring"
  fetch_range :: "jsstring \<Rightarrow> fetch_result"
  parseInt :: "jsstring \<Rightarrow> jsnum"
  toLocaleString :: "jsnum \<Rightarrow> jsstring"
  now_at_lookup :: int
  now_at_store :: int
  sha256_hex :: "jsstring \<Rightarrow> jsstring"
  passwordCheckDb_log :: "jsstring option \<Rightarrow> jsstring \<Rightarrow> AnalysisResult \<Rightarrow> bool"
  passwordHistoryDb_add :: "jsstring \<Rightarrow> jsstring \<Rightarrow> AnalysisResult \<Rightarrow> bool"

text \<open>The process-wide state: the breach cache, and the list of prefixes sent to the range
  endpoint so far.\<close>

record world =
  breachCache :: "jsstring \<rightharpoonup> breach_cache_entry"
  fetched :: "jsstring list"

record request =
  body_password :: "jsstring option"
  saveToHistory :: bool
  user_id :: "jsstring option"

text \<open>\<^verbatim>\<open>s.split(sep)\<close> for a separator of one code unit.\<close>

fun split_on :: "code_unit \<Rightarrow> jsstring \<Rightarrow> jsstring list" where
  "split_on sep [] = [[]]"
| "split_on sep (c # cs) =
     (if c = sep then [] # split_on sep cs
      else (case split_on sep cs of [] \<Rightarrow> [[c]] | w # ws \<Rightarrow> (c # w) # ws))"

text \<open>\<^verbatim>\<open>trim\<close> removes white space and line terminators at both ends.\<close>

definition is_whitespace :: "code_unit \<Rightarrow> bool" where
  "is_whitespace c =
     (List.member [9, 10, 11, 12, 13, 32, 160, 5760, 8232, 8233, 8239, 8287, 12288, 65279] c
      \<or> (8192 \<le> c \<and> c \<le> 8202))"

definition trim :: "jsstring \<Rightarrow> jsstring" where
  "trim s = rev (dropWhile is_whitespace (rev (dropWhile is_whitespace s)))"

text \<open>The loop over the lines of the response. \<^verbatim>\<open>[hashSuffix, count] = line.split(':')\<close>
  leaves \<^verbatim>\<open>count\<close> undefined on a line without a colon, and \<^verbatim>\<open>count.trim()\<close> then throws
  a TypeError. \<open>Inr None\<close>: the loop ends without a match.\<close>

fun scanLines :: "env \<Rightarrow> jsstring \<Rightarrow> jsstring list \<Rightarrow> js_error + breach_info option" where
  "scanLines env suffix [] = Inr None"
| "scanLines env suffix (line # lines) =
     (case split_on 58 line of
        [] \<Rightarrow> scanLines env suffix lines
      | [hashSuffix] \<Rightarrow>
          if hashSuffix = suffix then Inl TypeError else scanLines env suffix lines
      | hashSuffix # cnt # _ \<Rightarrow>
          if hashSuffix = suffix
          then Inr (Some \<lparr>info_isBreached = True, info_count = parseInt env (trim cnt)\<rparr>)
          else scanLines env suffix lines)"

definition cacheEntry :: "breach_info \<Rightarrow> int \<Rightarrow> breach_cache_entry" where
  "cacheEntry result now =
     \<lparr>cached_isBreached = info_isBreached result, cached_count = info_count result,
      timestamp = now\<rparr>"

text \<open>The body of the \<^verbatim>\<open>try\<close> block: \<open>Inl\<close> is an exception thrown in it.\<close>

definition breachLookup :: "env \<Rightarrow> world \<Rightarrow> jsstring \<Rightarrow> (js_error + breach_info) \<times> world" where
  "breachLookup env w password =
     (let cached = breachCache w password;
          hit = (case cached of None \<Rightarrow> False
                 | Some c \<Rightarrow> now_at_lookup env - timestamp c < 3600000)
      in case (hit, cached) of
           (True, Some c) \<Rightarrow>
             (Inr \<lparr>info_isBreached = cached_isBreached c, info_count = cached_count c\<rparr>, w)
         | _ \<Rightarrow>
           let sha1Hash = sha1_hex_upper env password;
               prefix = take 5 sha1Hash;
               suffix = drop 5 sha1Hash;
               w1 = w\<lparr>fetched := fetched w @ [prefix]\<rparr>
           in case fetch_range env prefix of
                FetchRejected \<Rightarrow> (Inl NetworkError, w1)
              | FetchResponse ok body \<Rightarrow>
                  if \<not> ok then (Inl BreachDbError, w1)
                  else
                    (case body of
                       None \<Rightarrow> (Inl NetworkError, w1)
                     | Some data \<Rightarrow>
                         (case scanLines env suffix (split_on 10 data) of
                            Inl e \<Rightarrow> (Inl e, w1)
                          | Inr (Some result) \<Rightarrow>
                              (Inr result,
                               w1\<lparr>breachCache := (breachCache w1)
                                     (password \<mapsto> cacheEntry result (now_at_store env))\<rparr>)
                          | Inr None \<Rightarrow>
                              (let result = \<lparr>info_isBreached = False, info_count = Num 0\<rparr>
                               in (Inr result,
                                   w1\<lparr>breachCache := (breachCache w1)
                                         (password \<mapsto> cacheEntry result (now_at_store env))\<rparr>)))))"

definition checkPasswordBreach :: "env \<Rightarrow> world \<Rightarrow> jsstring \<Rightarrow> breach_info \<times> world" where
  "checkPasswordBreach env w password =
     (case breachLookup env w password of
        (Inl e, w') \<Rightarrow> (\<lparr>info_isBreached = False, info_count = Num 0\<rparr>, w')
      | (Inr result, w') \<Rightarrow> (result, w'))"

section \<open>The request handler\<close>

text \<open>The warning starts with the warning sign U+26A0 and the variation selector U+FE0F.\<close>

definition breachWarning :: "env \<Rightarrow> jsnum \<Rightarrow> jsstring" where
  "breachWarning env n =
     [9888, 65039] @ js '' This password has been found in '' @ toLocaleString env n
       @ js '' data breaches. Choose a different password.''"

definition applyBreachInfo :: "env \<Rightarrow> breach_info \<Rightarrow> AnalysisResult \<Rightarrow> AnalysisResult" where
  "applyBreachInfo env breachInfo analysis0 =
     (let analysis = analysis0\<lparr>isBreached := Some (info_isBreached breachInfo)\<rparr>;
          analysis = analysis\<lparr>breachCount := Some (info_count breachInfo)\<rparr>
      in if info_isBreached breachInfo then
           let analysis = analysis\<lparr>suggestions :=
                 breachWarning env (info_count breachInfo) # suggestions analysis\<rparr>;
               analysis = analysis\<lparr>score := min (score analysis) 30\<rparr>;
               analysis = analysis\<lparr>strength :=
                 (if score analysis \<ge> 25 then Weak else VeryWeak)\<rparr>;
               analysis = analysis\<lparr>color :=
                 (if score analysis \<ge> 25 then js ''#f97316'' else js ''#ef4444'')\<rparr>
           in analysis
         else analysis)"

text \<open>The handler up to its response: 400 when the password is not a string (\<open>None\<close>),
  500 when a persistence call throws, else the analysis as JSON.\<close>

definition handlePasswordAnalysis :: "env \<Rightarrow> world \<Rightarrow> request \<Rightarrow> response \<times> world" where
  "handlePasswordAnalysis env w req =
     (case body_password req of
        None \<Rightarrow> (BadRequest, w)
      | Some password \<Rightarrow>
          let analysis = analyzePassword password;
              (analysis, w) =
                (if length password > 0 then
                   let (breachInfo, w') = checkPasswordBreach env w password
                   in (applyBreachInfo env breachInfo analysis, w')
                 else (analysis, w));
              passwordHash = (if password \<noteq> [] then sha256_hex env password else [])
          in if \<not> passwordCheckDb_log env (user_id req) passwordHash analysis
             then (InternalServerError, w)
             else
               (case user_id req of
                  Some uid \<Rightarrow>
                    if saveToHistory req \<and> length password > 0
                       \<and> \<not> passwordHistoryDb_add env uid passwordHash analysis
                    then (InternalServerError, w)
                    else (Json analysis, w)
                | None \<Rightarrow> (Json analysis, w)))"

section \<open>The specification's notions\<close>

text \<open>The character space as the specification words it: the sum of the sizes of the
  classes that are present in the password.\<close>

definition charspace_spec :: "jsstring \<Rightarrow> nat" where
  "charspace_spec p =
     (if (\<exists>c \<in> set p. is_lower c) then 26 else 0)
   + (if (\<exists>c \<in> set p. is_upper c) then 26 else 0)
   + (if (\<exists>c \<in> set p. is_digit c) then 10 else 0)
   + (if (\<exists>c \<in> set p. is_special c) then 32 else 0)"

text \<open>The tier table of the specification: thresholds in descending order, the first
  that the score reaches decides, and Very Weak when none does. \<open>tier_rank\<close> is the order
  of the six tiers.\<close>

definition tier_thresholds :: "(int \<times> strength) list" where
  "tier_thresholds = [(90, VeryStrong), (75, Strong), (60, Good), (40, Fair), (20, Weak)]"

definition tier_of_score :: "int \<Rightarrow> strength" where
  "tier_of_score s =
     (case find (\<lambda>(t, tier). s \<ge> t) tier_thresholds of
        Some (t, tier) \<Rightarrow> tier
      | None \<Rightarrow> VeryWeak)"

fun tier_rank :: "strength \<Rightarrow> nat" where
  "tier_rank VeryWeak = 0"
| "tier_rank Weak = 1"
| "tier_rank Fair = 2"
| "tier_rank Good = 3"
| "tier_rank Strong = 4"
| "tier_rank VeryStrong = 5"

text \<open>
  The failures of a breach lookup as the specification names them. The lookup happens
  only when the cache has no fresh entry (\<open>cacheFresh\<close>). It fails on a network error
  (the request is rejected, or the body cannot be read), on a non-success status, and on a
  parsing error: the first line whose text before the colon is the suffix looked for has
  no count, or a count that is not a number (\<open>parsingError\<close>, \<open>lookupError\<close>).
  \<open>lookupThrows\<close> are those of the failures at which the source throws an exception:
  of the parsing errors, only a line without a colon (\<open>matchWithoutCount\<close>).
  \<open>persistenceReturns\<close>: the persistence calls that the handler makes for a non-empty
  password return normally.
\<close>

definition cacheFresh :: "env \<Rightarrow> world \<Rightarrow> jsstring \<Rightarrow> bool" where
  "cacheFresh env w password =
     (case breachCache w password of
        None \<Rightarrow> False
      | Some c \<Rightarrow> now_at_lookup env - timestamp c < 3600000)"

definition parsingError :: "env \<Rightarrow> jsstring \<Rightarrow> jsstring list \<Rightarrow> bool" where
  "parsingError env suffix lines =
     (case find (\<lambda>line. takeWhile (\<lambda>c. c \<noteq> 58) line = suffix) lines of
        None \<Rightarrow> False
      | Some line \<Rightarrow>
          (case split_on 58 line of
             hashSuffix # cnt # rest \<Rightarrow> parseInt env (trim cnt) = NaN
           | _ \<Rightarrow> True))"

definition lookupError :: "env \<Rightarrow> jsstring \<Rightarrow> bool" where
  "lookupError env password =
     (let sha1Hash = sha1_hex_upper env password
      in case fetch_range env (take 5 sha1Hash) of
           FetchRejected \<Rightarrow> True
         | FetchResponse ok body \<Rightarrow>
             \<not> ok \<or> (case body of
                        None \<Rightarrow> True
                      | Some data \<Rightarrow> parsingError env (drop 5 sha1Hash) (split_on 10 data)))"

definition matchWithoutCount :: "jsstring \<Rightarrow> jsstring list \<Rightarrow> bool" where
  "matchWithoutCount suffix lines =
     (case find (\<lambda>line. takeWhile (\<lambda>c. c \<noteq> 58) line = suffix) lines of
        None \<Rightarrow> False
      | Some line \<Rightarrow> \<not> List.member line 58)"

definition lookupThrows :: "env \<Rightarrow> jsstring \<Rightarrow> bool" where
  "lookupThrows env password =
     (let sha1Hash = sha1_hex_upper env password
      in case fetch_range env (take 5 sha1Hash) of
           FetchRejected \<Rightarrow> True
         | FetchResponse ok body \<Rightarrow>
             \<not> ok \<or> (case body of
                        None \<Rightarrow> True
                      | Some data \<Rightarrow> matchWithoutCount (drop 5 sha1Hash) (split_on 10 data)))"

definition persistenceReturns :: "env \<Rightarrow> request \<Rightarrow> jsstring \<Rightarrow> AnalysisResult \<Rightarrow> bool" where
  "persistenceReturns env req password a =
     (passwordCheckDb_log env (user_id req) (sha256_hex env password) a
      \<and> (case user_id req of
            None \<Rightarrow> True
          | Some uid \<Rightarrow>
              \<not> saveToHistory req \<or> passwordHistoryDb_add env uid (sha256_hex env password) a))"

text \<open>
  The display table of the crack-time estimator as the specification gives it: ascending
  limits in seconds, each with the unit (in seconds) and the unit's name of its display;
  the first bucket has no count. The first limit above the seconds decides.
\<close>

definition crack_buckets :: "(real \<times> (real \<times> string) option) list" where
  "crack_buckets =
     [(1, None),
      (60, Some (1, '' seconds'')),
      (3600, Some (60, '' minutes'')),
      (86400, Some (3600, '' hours'')),
      (2629746, Some (86400, '' days'')),
      (31556952, Some (2629746, '' months'')),
      (315569520, Some (31556952, '' years'')),
      (3155695200, Some (315569520, '' decades''))]"

definition crack_display_spec :: "real \<Rightarrow> jsstring" where
  "crack_display_spec s =
     (case find (\<lambda>(limit, u). s < limit) crack_buckets of
        None \<Rightarrow> js ''Centuries''
      | Some (limit, None) \<Rightarrow> js ''Instantly''
      | Some (limit, Some (unit, name)) \<Rightarrow> number_to_string (Math_round (s / unit)) @ js name)"

text \<open>
  The triggers of the structural penalties as the specification words them, each about
  three consecutive code units of the password (\<open>has_window\<close>): the same code unit three
  times; three digits, each one more than the one before; three letters, each the next of
  the alphabet after the one before, whatever their case. \<open>has_890\<close> is the one triple
  of the source's list that is not of the second kind, and \<open>has_plain_triple_repeat\<close>
  is a repetition of a code unit that is not a line terminator.
\<close>

definition has_window :: "(code_unit \<Rightarrow> code_unit \<Rightarrow> code_unit \<Rightarrow> bool) \<Rightarrow> jsstring \<Rightarrow> bool" where
  "has_window Q p = (\<exists>i \<in> {0 ..< length p - 2}. Q (p ! i) (p ! (i + 1)) (p ! (i + 2)))"

definition is_line_terminator :: "code_unit \<Rightarrow> bool" where
  "is_line_terminator c = (c = 10 \<or> c = 13 \<or> c = 8232 \<or> c = 8233)"

definition has_triple_repeat :: "jsstring \<Rightarrow> bool" where
  "has_triple_repeat p = has_window (\<lambda>a b c. b = a \<and> c = a) p"

definition has_plain_triple_repeat :: "jsstring \<Rightarrow> bool" where
  "has_plain_triple_repeat p =
     has_window (\<lambda>a b c. \<not> is_line_terminator a \<and> b = a \<and> c = a) p"

definition has_ascending_digit_run :: "jsstring \<Rightarrow> bool" where
  "has_ascending_digit_run p =
     has_window (\<lambda>a b c. is_digit a \<and> is_digit c \<and> b = a + 1 \<and> c = a + 2) p"

definition has_890 :: "jsstring \<Rightarrow> bool" where
  "has_890 p = has_window (\<lambda>a b c. [a, b, c] = js ''890'') p"

definition letter_index :: "code_unit \<Rightarrow> nat option" where
  "letter_index c =
     (if is_lower c then Some (c - 97) else if is_upper c then Some (c - 65) else None)"

definition has_ascending_letter_run :: "jsstring \<Rightarrow> bool" where
  "has_ascending_letter_run p =
     has_window (\<lambda>a b c. case letter_index a of
                            None \<Rightarrow> False
                          | Some k \<Rightarrow> letter_index b = Some (k + 1) \<and> letter_index c = Some (k + 2)) p"

section \<open>A concrete environment\<close>

text \<open>
  An environment and worlds to run the handler on: a range endpoint that answers every
  prefix with three lines, one of them for the SHA-1 of \<^verbatim>\<open>password\<close>; a decimal
  \<^verbatim>\<open>parseInt\<close>; persistence that returns normally. \<open>offline_env\<close> is the same with an
  endpoint that cannot be reached, \<open>warm_world\<close> has a fresh cache entry.
\<close>

definition decimal_parseInt :: "jsstring \<Rightarrow> jsnum" where
  "decimal_parseInt s =
     (let ds = takeWhile is_digit s
      in if ds = [] then NaN else Num (foldl (\<lambda>a d. 10 * a + int (d - 48)) 0 ds))"

definition plain_toLocaleString :: "jsnum \<Rightarrow> jsstring" where
  "plain_toLocaleString n =
     (case n of Num i \<Rightarrow> number_to_string i | NaN \<Rightarrow> js ''NaN''
      | PosInfinity \<Rightarrow> [8734] | NegInfinity \<Rightarrow> [45, 8734])"

definition demo_body :: jsstring where
  "demo_body =
     js ''1D2DA4053E34E76F6576ED1DA63134B5E2A:2'' @ [13, 10]
     @ js ''1E4C9B93F3F0682250B6CF8331B7EE68FD8:3730471'' @ [13, 10]
     @ js ''1F2B668E8AABEF1C59E9EC6F82E3F3CD786:1''"

definition demo_env :: env where
  "demo_env =
     \<lparr>sha1_hex_upper = (\<lambda>p. if p = js ''password''
                            then js ''5BAA61E4C9B93F3F0682250B6CF8331B7EE68FD8''
                            else js ''0000000000000000000000000000000000000000''),
      fetch_range = (\<lambda>prefix. FetchResponse True (Some demo_body)),
      parseInt = decimal_parseInt,
      toLocaleString = plain_toLocaleString,
      now_at_lookup = 1000,
      now_at_store = 1001,
      sha256_hex = (\<lambda>p. js ''00''),
      passwordCheckDb_log = (\<lambda>uid h a. True),
      passwordHistoryDb_add = (\<lambda>uid h a. True)\<rparr>"

definition offline_env :: env where
  "offline_env = demo_env\<lparr>fetch_range := (\<lambda>prefix. FetchRejected)\<rparr>"

definition empty_world :: world where
  "empty_world = \<lparr>breachCache = Map.empty, fetched = []\<rparr>"

definition demo_request :: "jsstring \<Rightarrow> request" where
  "demo_request p = \<lparr>body_password = Some p, saveToHistory = False, user_id = None\<rparr>"

text \<open>A password of 160 code units with all four classes; its entropy is above 1024.\<close>

definition long_password :: jsstring where
  "long_password = concat (replicate 40 (js ''aB3!''))"

definition warm_world :: world where
  "warm_world =
     \<lparr>breachCache = [js ''-_-_-_-_'' \<mapsto>
        \<lparr>cached_isBreached = True, cached_count = Num 3, timestamp = 900\<rparr>],
      fetched = []\<rparr>"

text \<open>\<open>truncated_env\<close>: the response ends in the middle of the line for the suffix
  looked for. \<open>garbled_env\<close>: the count of that line is not a number.\<close>

definition truncated_env :: env where
  "truncated_env =
     demo_env\<lparr>fetch_range := (\<lambda>prefix. FetchResponse True
        (Some (js ''1D2DA4053E34E76F6576ED1DA63134B5E2A:2'' @ [13, 10]
               @ js ''1E4C9B93F3F0682250B6CF8331B7EE68FD8'')))\<rparr>"

definition garbled_env :: env where
  "garbled_env =
     demo_env\<lparr>fetch_range := (\<lambda>prefix. FetchResponse True
        (Some (js ''1E4C9B93F3F0682250B6CF8331B7EE68FD8:many'')))\<rparr>"

section \<open>Lemmas about the model\<close>

subsection \<open>Entropy and the password \<open>password\<close>\<close>

lemma charSpaceOf_spec: "charSpaceOf p = charspace_spec p"
  by (simp add: charSpaceOf_def charspace_spec_def regex_class_test_def list_ex_iff)

lemma entropy_gt_iff:
  assumes "1 \<le> c"
  shows "(real n * log 2 (real c) > real k) = (c ^ n > 2 ^ k)"
proof -
  have "real n * log 2 (real c) = log 2 (real (c ^ n))"
    using assms by (simp add: log_nat_power)
  moreover have "(log 2 (real (c ^ n)) > real k) = (real (c ^ n) > 2 powr real k)"
    using assms by (simp add: less_log_iff)
  moreover have "(2::real) powr real k = real (2 ^ k)"
    by (simp add: powr_realpow)
  ultimately show ?thesis
    by (metis of_nat_less_iff)
qed

lemmas class_defs = regex_class_test_def js_def is_lower_def is_upper_def is_digit_def
  is_special_def special_chars_def

lemmas pattern_defs = hasRepeatedChars_def hasSequentialNumbers_def hasSequentialLetters_def
  regex_alt_test_i_def sequential_numbers_def sequential_letters_def starts_with_def
  canonicalize_def dot_matches_def js_def

lemma password_checks:
  "computeChecks (js ''password'') =
     \<lparr>hasLength = True, hasUppercase = False, hasLowercase = True, hasNumbers = False,
      hasSpecialChars = False, isCommon = True\<rparr>"
  by (simp add: computeChecks_def class_defs COMMON_PASSWORDS_def toLowerCase_def)

lemma password_entropy: "calculateEntropy (js ''password'') = 8 * log 2 26"
  by (simp add: calculateEntropy_def charSpaceOf_def class_defs)

lemma password_entropy_low: "\<not> calculateEntropy (js ''password'') > 40"
proof -
  have "(real 8 * log 2 (real 26) > real 40) = ((26::nat) ^ 8 > 2 ^ 40)"
    by (rule entropy_gt_iff) simp
  then show ?thesis by (simp add: password_entropy)
qed

lemma password_patterns:
  "\<not> hasRepeatedChars (js ''password'')" "\<not> hasSequentialNumbers (js ''password'')"
  "\<not> hasSequentialLetters (js ''password'')"
  by (simp_all add: pattern_defs)

lemma password_length: "length (js ''password'') = 8" by (simp add: js_def)


subsection \<open>The fields of the analysis\<close>

lemma analyze_score: "p \<noteq> [] \<Longrightarrow> score (analyzePassword p) = max 0 (min 100 (rawScore p))"
  by (simp add: analyzePassword_def Let_def split: prod.split)

lemma analyze_strength:
  "p \<noteq> [] \<Longrightarrow> strength (analyzePassword p) = fst (determineStrength (score (analyzePassword p)))"
  by (simp add: analyzePassword_def Let_def split: prod.split)

lemma analyze_color:
  "p \<noteq> [] \<Longrightarrow> color (analyzePassword p) = snd (determineStrength (score (analyzePassword p)))"
  by (simp add: analyzePassword_def Let_def split: prod.split)

lemma analyze_suggestions:
  "p \<noteq> [] \<Longrightarrow> suggestions (analyzePassword p) = generateSuggestions (computeChecks p) p"
  by (simp add: analyzePassword_def Let_def split: prod.split)

lemma analyze_entropy:
  "p \<noteq> [] \<Longrightarrow> entropy (analyzePassword p) = real_of_int (Math_round (calculateEntropy p * 10)) / 10"
  by (simp add: analyzePassword_def Let_def split: prod.split)

lemma analyze_timeToCrack:
  "p \<noteq> [] \<Longrightarrow> timeToCrack (analyzePassword p) = calculateCrackTime (calculateEntropy p)"
  by (simp add: analyzePassword_def Let_def split: prod.split)

lemma analyze_crackTime:
  "p \<noteq> [] \<Longrightarrow> crackTime (analyzePassword p) = display (calculateCrackTime (calculateEntropy p))"
  by (simp add: analyzePassword_def Let_def split: prod.split)

lemma analyze_checks: "p \<noteq> [] \<Longrightarrow> checks (analyzePassword p) = computeChecks p"
  by (simp add: analyzePassword_def Let_def split: prod.split)

lemma analyze_no_breach_fields:
  "isBreached (analyzePassword p) = None \<and> breachCount (analyzePassword p) = None"
  by (simp add: analyzePassword_def emptyResult_def Let_def split: prod.split)

lemma determineStrength_tier: "fst (determineStrength s) = tier_of_score s"
  by (simp add: determineStrength_def tier_of_score_def tier_thresholds_def)

lemma tier_mono: "s1 \<le> s2 \<Longrightarrow> tier_rank (tier_of_score s1) \<le> tier_rank (tier_of_score s2)"
  by (simp add: tier_of_score_def tier_thresholds_def)

lemma analyze_score_range: "0 \<le> score (analyzePassword p) \<and> score (analyzePassword p) \<le> 100"
  by (cases "p = []") (simp_all add: analyze_score, simp add: analyzePassword_def emptyResult_def)

lemma analyze_tier: "strength (analyzePassword p) = tier_of_score (score (analyzePassword p))"
proof (cases "p = []")
  case True
  then show ?thesis
    by (simp add: analyzePassword_def emptyResult_def tier_of_score_def tier_thresholds_def)
next
  case False
  then show ?thesis by (simp add: analyze_strength determineStrength_tier)
qed

subsection \<open>The handler\<close>

lemma apply_not_breached:
  "\<not> info_isBreached info \<Longrightarrow>
   applyBreachInfo env info a = a\<lparr>isBreached := Some False, breachCount := Some (info_count info)\<rparr>"
  by (simp add: applyBreachInfo_def Let_def)

lemma apply_breached:
  "info_isBreached info \<Longrightarrow>
   applyBreachInfo env info a =
     a\<lparr>score := min (score a) 30,
       strength := (if min (score a) 30 \<ge> 25 then Weak else VeryWeak),
       color := (if min (score a) 30 \<ge> 25 then js ''#f97316'' else js ''#ef4444''),
       suggestions := breachWarning env (info_count info) # suggestions a,
       isBreached := Some True, breachCount := Some (info_count info)\<rparr>"
  by (simp add: applyBreachInfo_def Let_def)

lemma handle_nonempty:
  assumes "body_password req = Some p" and "p \<noteq> []"
    and "checkPasswordBreach env w p = (info, w')"
  shows "handlePasswordAnalysis env w req =
     (if passwordCheckDb_log env (user_id req) (sha256_hex env p)
            (applyBreachInfo env info (analyzePassword p))
         \<and> (case user_id req of None \<Rightarrow> True
             | Some uid \<Rightarrow> saveToHistory req \<longrightarrow>
                 passwordHistoryDb_add env uid (sha256_hex env p)
                   (applyBreachInfo env info (analyzePassword p)))
      then Json (applyBreachInfo env info (analyzePassword p))
      else InternalServerError, w')"
  using assms by (auto simp add: handlePasswordAnalysis_def Let_def split: option.splits)

lemma handle_empty:
  assumes "body_password req = Some []"
  shows "handlePasswordAnalysis env w req =
     (if passwordCheckDb_log env (user_id req) [] emptyResult then Json emptyResult
      else InternalServerError, w)"
  using assms by (auto simp add: handlePasswordAnalysis_def Let_def analyzePassword_def split: option.splits)

lemma handle_json:
  assumes "handlePasswordAnalysis env w req = (Json a, w')"
  shows "\<exists>p. body_password req = Some p
     \<and> (if p = [] then a = analyzePassword p \<and> w' = w
        else a = applyBreachInfo env (fst (checkPasswordBreach env w p)) (analyzePassword p)
             \<and> w' = snd (checkPasswordBreach env w p))"
proof (cases "body_password req")
  case None
  with assms show ?thesis by (simp add: handlePasswordAnalysis_def)
next
  case (Some p)
  show ?thesis
  proof (cases "p = []")
    case True
    from handle_empty [of req env w] Some True assms
    have "a = emptyResult \<and> w' = w"
      by (simp split: if_splits)
    with Some True show ?thesis by (simp add: analyzePassword_def)
  next
    case False
    obtain info w1 where c: "checkPasswordBreach env w p = (info, w1)"
      by (cases "checkPasswordBreach env w p")
    from handle_nonempty [OF Some False c] assms
    have "a = applyBreachInfo env info (analyzePassword p) \<and> w' = w1"
      by (simp split: if_splits)
    with Some False c show ?thesis by simp
  qed
qed

subsection \<open>Runs in the concrete environment\<close>

lemmas demo_defs = checkPasswordBreach_def breachLookup_def demo_env_def offline_env_def
  empty_world_def demo_body_def js_def cacheEntry_def decimal_parseInt_def trim_def
  is_whitespace_def is_digit_def Let_def demo_request_def

lemma demo_breach_password:
  "checkPasswordBreach demo_env empty_world (js ''password'') =
     (\<lparr>info_isBreached = True, info_count = Num 3730471\<rparr>,
      \<lparr>breachCache = [js ''password'' \<mapsto>
          \<lparr>cached_isBreached = True, cached_count = Num 3730471, timestamp = 1001\<rparr>],
       fetched = [js ''5BAA6'']\<rparr>)"
  by (simp add: demo_defs)

lemma demo_clean_password:
  "checkPasswordBreach demo_env empty_world (js ''-_-_-_-_'') =
     (\<lparr>info_isBreached = False, info_count = Num 0\<rparr>,
      \<lparr>breachCache = [js ''-_-_-_-_'' \<mapsto>
          \<lparr>cached_isBreached = False, cached_count = Num 0, timestamp = 1001\<rparr>],
       fetched = [js ''00000'']\<rparr>)"
  by (simp add: demo_defs)

lemma demo_handle:
  assumes "p \<noteq> []" and "checkPasswordBreach demo_env w p = (info, w')"
  shows "handlePasswordAnalysis demo_env w (demo_request p) =
     (Json (applyBreachInfo demo_env info (analyzePassword p)), w')"
proof -
  have b: "body_password (demo_request p) = Some p" by (simp add: demo_request_def)
  show ?thesis
    by (simp add: handle_nonempty [OF b assms]) (simp add: demo_env_def demo_request_def)
qed

lemma dashes_checks:
  "computeChecks (js ''-_-_-_-_'') =
     \<lparr>hasLength = True, hasUppercase = False, hasLowercase = False, hasNumbers = False,
      hasSpecialChars = False, isCommon = False\<rparr>"
  by (simp add: computeChecks_def class_defs COMMON_PASSWORDS_def toLowerCase_def)

lemma dashes_score: "score (analyzePassword (js ''-_-_-_-_'')) = 20"
proof -
  have ne: "js ''-_-_-_-_'' \<noteq> []" by (simp add: js_def)
  have e: "calculateEntropy (js ''-_-_-_-_'') = 0"
    by (simp add: calculateEntropy_def charSpaceOf_def class_defs)
  have q: "\<not> hasRepeatedChars (js ''-_-_-_-_'')" "\<not> hasSequentialNumbers (js ''-_-_-_-_'')"
    "\<not> hasSequentialLetters (js ''-_-_-_-_'')"
    by (simp_all add: pattern_defs)
  have l: "length (js ''-_-_-_-_'') = 8" by (simp add: js_def)
  have "rawScore (js ''-_-_-_-_'') = 20"
    by (simp add: rawScore_def lengthScoring_def characterTypeScoring_def commonPenalty_def
        entropyBonus_def patternPenalties_def dashes_checks e q l)
  then show ?thesis by (simp add: analyze_score [OF ne])
qed

subsection \<open>Parts of the score\<close>

lemma lengthScoring_16: "length p \<ge> 16 \<Longrightarrow> lengthScoring (computeChecks p) p s \<ge> s + 40"
  by (simp add: lengthScoring_def computeChecks_def Let_def)

lemma entropyBonus_ge: "entropyBonus e s \<ge> s"
  by (simp add: entropyBonus_def Let_def)

lemma rawScore_unfold:
  "rawScore p = patternPenalties p (entropyBonus (calculateEntropy p)
     (commonPenalty (computeChecks p) (characterTypeScoring (computeChecks p)
        (lengthScoring (computeChecks p) p 0))))"
  by (simp add: rawScore_def Let_def)

lemmas double_defs = Math_pow2_def double_div_def double_less_def rounded_to_string_def

lemma crack_instantly: "display (calculateCrackTime 0) = js ''Instantly''"
  by (simp add: calculateCrackTime_def Let_def double_defs)

subsection \<open>Exceptions of the breach lookup\<close>

lemma split_on_hd:
  "\<exists>rest. split_on sep s = takeWhile (\<lambda>c. c \<noteq> sep) s # rest \<and> (rest = []) = (sep \<notin> set s)"
  by (induction s) (auto split: list.splits)

lemma scanLines_error:
  "(scanLines env suffix lines = Inl e) = (e = TypeError \<and> matchWithoutCount suffix lines)"
proof (induction lines)
  case Nil
  show ?case by (simp add: matchWithoutCount_def)
next
  case (Cons line lines)
  obtain rest where r: "split_on 58 line = takeWhile (\<lambda>c. c \<noteq> 58) line # rest"
    and e: "(rest = []) = (58 \<notin> set line)"
    using split_on_hd [of 58 line] by blast
  show ?case
  proof (cases "takeWhile (\<lambda>c. c \<noteq> 58) line = suffix")
    case True
    then show ?thesis
      using r e by (cases rest) (auto simp add: matchWithoutCount_def)
  next
    case False
    then show ?thesis
      using r Cons.IH by (cases rest) (auto simp add: matchWithoutCount_def)
  qed
qed

lemma breachLookup_error:
  assumes "\<not> cacheFresh env w password" and "lookupThrows env password"
  shows "\<exists>e. breachLookup env w password =
     (Inl e, w\<lparr>fetched := fetched w @ [take 5 (sha1_hex_upper env password)]\<rparr>)"
proof -
  have s: "scanLines env suffix lines = Inl TypeError" if "matchWithoutCount suffix lines"
    for suffix lines
    using that scanLines_error [of env suffix lines TypeError] by simp
  show ?thesis
    using assms
    by (auto simp add: breachLookup_def cacheFresh_def lookupThrows_def Let_def s
        split: option.splits fetch_result.splits bool.splits)
qed

lemma checkPasswordBreach_error:
  assumes "\<not> cacheFresh env w password" and "lookupThrows env password"
  shows "checkPasswordBreach env w password =
     (\<lparr>info_isBreached = False, info_count = Num 0\<rparr>,
      w\<lparr>fetched := fetched w @ [take 5 (sha1_hex_upper env password)]\<rparr>)"
  using breachLookup_error [OF assms] by (auto simp add: checkPasswordBreach_def)

lemma breachLookup_cached:
  assumes "cacheFresh env w password"
  shows "\<exists>r. breachLookup env w password = (Inr r, w)"
  using assms by (auto simp add: breachLookup_def cacheFresh_def split: option.splits)

lemma breachLookup_answer:
  assumes "\<not> cacheFresh env w password" and "\<not> lookupThrows env password"
  shows "\<exists>r. fst (breachLookup env w password) = Inr r"
proof -
  let ?h = "sha1_hex_upper env password"
  from assms(2) obtain data where f: "fetch_range env (take 5 ?h) = FetchResponse True (Some data)"
    and m: "\<not> matchWithoutCount (drop 5 ?h) (split_on 10 data)"
    by (auto simp add: lookupThrows_def Let_def split: fetch_result.splits option.splits)
  from m have n: "scanLines env (drop 5 ?h) (split_on 10 data) \<noteq> Inl e" for e
    by (simp add: scanLines_error)
  have k: "(case breachCache w password of None \<Rightarrow> False
            | Some c \<Rightarrow> now_at_lookup env - timestamp c < 3600000) = False"
    using assms(1) by (simp add: cacheFresh_def)
  show ?thesis
  proof (cases "scanLines env (drop 5 ?h) (split_on 10 data)")
    case (Inl e)
    with n [of e] show ?thesis by simp
  next
    case (Inr r)
    then show ?thesis
      by (cases r) (simp_all add: breachLookup_def Let_def k f)
  qed
qed

lemma breachLookup_throws_iff:
  "(\<exists>e. fst (breachLookup env w password) = Inl e)
     = (\<not> cacheFresh env w password \<and> lookupThrows env password)"
proof
  assume a: "\<exists>e. fst (breachLookup env w password) = Inl e"
  show "\<not> cacheFresh env w password \<and> lookupThrows env password"
  proof (rule ccontr)
    assume "\<not> (\<not> cacheFresh env w password \<and> lookupThrows env password)"
    then consider "cacheFresh env w password"
      | "\<not> cacheFresh env w password" "\<not> lookupThrows env password" by blast
    then have "\<exists>r. fst (breachLookup env w password) = Inr r"
    proof cases
      case 1
      from breachLookup_cached [OF 1] show ?thesis by auto
    next
      case 2
      then show ?thesis by (rule breachLookup_answer)
    qed
    with a show False by auto
  qed
next
  assume "\<not> cacheFresh env w password \<and> lookupThrows env password"
  then show "\<exists>e. fst (breachLookup env w password) = Inl e"
    using breachLookup_error [of env w password] by auto
qed

text \<open>A count that is not a number is no exception: \<^verbatim>\<open>parseInt\<close> returns NaN and the
  password is reported as breached.\<close>

lemma garbled_count_reported:
  "fst (checkPasswordBreach garbled_env empty_world (js ''password'')) =
     \<lparr>info_isBreached = True, info_count = NaN\<rparr>"
  by (simp add: garbled_env_def demo_defs)

lemma truncated_lookupThrows: "lookupThrows truncated_env (js ''password'')"
  by (simp add: lookupThrows_def truncated_env_def demo_env_def matchWithoutCount_def js_def)

text \<open>Every failure at which the source throws is caught: not breached, count 0, nothing
  written to the cache, and the handler answers with the complete analysis when its
  persistence calls return normally.\<close>

lemma thrown_errors_swallowed:
  assumes "\<not> cacheFresh env w password" and "lookupThrows env password"
  shows "(\<exists>e. fst (breachLookup env w password) = Inl e)
     \<and> fst (checkPasswordBreach env w password) = \<lparr>info_isBreached = False, info_count = Num 0\<rparr>
     \<and> breachCache (snd (checkPasswordBreach env w password)) = breachCache w
     \<and> (password \<noteq> [] \<and> body_password req = Some password
          \<and> persistenceReturns env req password
               ((analyzePassword password)\<lparr>isBreached := Some False, breachCount := Some (Num 0)\<rparr>)
        \<longrightarrow> fst (handlePasswordAnalysis env w req) =
              Json ((analyzePassword password)
                     \<lparr>isBreached := Some False, breachCount := Some (Num 0)\<rparr>))"
proof -
  note c = checkPasswordBreach_error [OF assms]
  have "fst (handlePasswordAnalysis env w req) =
      Json ((analyzePassword password)\<lparr>isBreached := Some False, breachCount := Some (Num 0)\<rparr>)"
    if "password \<noteq> []" and "body_password req = Some password"
      and "persistenceReturns env req password
        ((analyzePassword password)\<lparr>isBreached := Some False, breachCount := Some (Num 0)\<rparr>)"
    using that handle_nonempty [OF that(2) that(1) c]
    by (auto simp add: apply_not_breached persistenceReturns_def split: option.splits)
  moreover have "\<exists>e. fst (breachLookup env w password) = Inl e"
    using breachLookup_error [OF assms] by auto
  ultimately show ?thesis by (simp add: c)
qed

lemma thrown_errors_swallowed_examples:
  "\<not> cacheFresh offline_env empty_world (js ''password'')
   \<and> lookupThrows offline_env (js ''password'')
   \<and> fst (checkPasswordBreach offline_env empty_world (js ''password''))
       = \<lparr>info_isBreached = False, info_count = Num 0\<rparr>
   \<and> fst (handlePasswordAnalysis offline_env empty_world (demo_request (js ''password''))) =
       Json ((analyzePassword (js ''password''))
              \<lparr>isBreached := Some False, breachCount := Some (Num 0)\<rparr>)
   \<and> \<not> cacheFresh truncated_env empty_world (js ''password'')
   \<and> lookupThrows truncated_env (js ''password'')
   \<and> fst (checkPasswordBreach truncated_env empty_world (js ''password''))
       = \<lparr>info_isBreached = False, info_count = Num 0\<rparr>"
proof -
  have 1: "\<not> cacheFresh offline_env empty_world (js ''password'')"
    by (simp add: cacheFresh_def empty_world_def)
  have 2: "lookupThrows offline_env (js ''password'')"
    by (simp add: lookupThrows_def offline_env_def demo_env_def)
  have 3: "js ''password'' \<noteq> []" by (simp add: js_def)
  have 4: "body_password (demo_request (js ''password'')) = Some (js ''password'')"
    by (simp add: demo_request_def)
  have 5: "persistenceReturns offline_env (demo_request (js ''password'')) (js ''password'')
      ((analyzePassword (js ''password''))\<lparr>isBreached := Some False, breachCount := Some (Num 0)\<rparr>)"
    by (simp add: persistenceReturns_def offline_env_def demo_env_def demo_request_def)
  have 6: "\<not> cacheFresh truncated_env empty_world (js ''password'')"
    by (simp add: cacheFresh_def empty_world_def)
  from thrown_errors_swallowed [OF 1 2, of "demo_request (js ''password'')"]
    thrown_errors_swallowed [OF 6 truncated_lookupThrows] 1 2 3 4 5 6 truncated_lookupThrows
  show ?thesis by simp
qed

lemma lookupThrows_lookupError: "lookupThrows env password \<Longrightarrow> lookupError env password"
proof -
  have "parsingError env suffix lines" if "matchWithoutCount suffix lines" for suffix lines
  proof -
    from that obtain line
      where f: "find (\<lambda>line. takeWhile (\<lambda>c. c \<noteq> 58) line = suffix) lines = Some line"
        and n: "58 \<notin> set line"
      by (auto simp add: matchWithoutCount_def split: option.splits)
    from split_on_hd [of 58 line] n obtain h where "split_on 58 line = [h]" by auto
    with f show ?thesis by (simp add: parsingError_def)
  qed
  then show "lookupThrows env password \<Longrightarrow> lookupError env password"
    by (auto simp add: lookupThrows_def lookupError_def Let_def
        split: fetch_result.splits option.splits)
qed

subsection \<open>The crack-time estimator\<close>

lemma crack_seconds:
  "e < 1024 \<Longrightarrow> seconds (calculateCrackTime e) = Finite ((2 powr e / 2) / 10 ^ 9)"
  by (simp add: calculateCrackTime_def Let_def double_defs)

lemma crack_display:
  "e < 1024 \<Longrightarrow> display (calculateCrackTime e) = crack_display_spec ((2 powr e / 2) / 10 ^ 9)"
  by (simp add: calculateCrackTime_def Let_def double_defs crack_display_spec_def
      crack_buckets_def)

lemma crack_overflow:
  "1024 \<le> e \<Longrightarrow> calculateCrackTime e = \<lparr>seconds = Infinity, display = js ''Centuries''\<rparr>"
  by (simp add: calculateCrackTime_def Let_def double_defs)

text \<open>The overflow is reached from the handler: a password of 160 code units with all
  four classes has an entropy above 1024.\<close>

lemma entropy_ge_iff:
  assumes "1 \<le> c"
  shows "(real k \<le> real n * log 2 (real c)) = (2 ^ k \<le> c ^ n)"
proof -
  have "real n * log 2 (real c) = log 2 (real (c ^ n))"
    using assms by (simp add: log_nat_power)
  moreover have "(real k \<le> log 2 (real (c ^ n))) = (2 powr real k \<le> real (c ^ n))"
    using assms by (simp add: le_log_iff)
  moreover have "(2::real) powr real k = real (2 ^ k)"
    by (simp add: powr_realpow)
  ultimately show ?thesis
    by (metis of_nat_le_iff)
qed

lemma long_password_set: "set long_password = set (js ''aB3!'')"
  by (simp add: long_password_def)

lemma long_password_length: "length long_password = 160"
  by (simp add: long_password_def length_concat js_def sum_list_replicate)

lemma long_password_entropy: "calculateEntropy long_password = 160 * log 2 94"
  by (simp add: calculateEntropy_def charSpaceOf_def regex_class_test_def list_ex_iff
      long_password_set long_password_length)
    (simp add: js_def is_lower_def is_upper_def is_digit_def is_special_def special_chars_def)

lemma long_password_overflow:
  "seconds (timeToCrack (analyzePassword long_password)) = Infinity
   \<and> crackTime (analyzePassword long_password) = js ''Centuries''"
proof -
  have ne: "long_password \<noteq> []"
    using long_password_length by auto
  have "(real 1024 \<le> real 160 * log 2 (real 94)) = ((2::nat) ^ 1024 \<le> 94 ^ 160)"
    by (rule entropy_ge_iff) simp
  then have "1024 \<le> calculateEntropy long_password"
    by (simp add: long_password_entropy)
  then show ?thesis
    by (simp add: analyze_timeToCrack [OF ne] analyze_crackTime [OF ne] crack_overflow)
qed

lemma Math_round_nearest: "\<bar>real_of_int (Math_round x) - x\<bar> \<le> 1 / 2"
  unfolding Math_round_def by linarith

subsection \<open>The three pattern tests\<close>

lemma has_window_short [simp]: "has_window Q [] = False" "has_window Q [a] = False"
  "has_window Q [a, b] = False"
  by (simp_all add: has_window_def)

lemma has_window_Cons [simp]:
  "has_window Q (a # b # c # rest) = (Q a b c \<or> has_window Q (b # c # rest))"
proof -
  have "(\<exists>i \<in> {0 ..< Suc (length rest)}. Q ((a # b # c # rest) ! i) ((b # c # rest) ! i) ((c # rest) ! i))
      = (Q a b c \<or> (\<exists>i \<in> {0 ..< length rest}. Q ((b # c # rest) ! i) ((c # rest) ! i) (rest ! i)))"
    (is "?l = ?r")
  proof
    assume ?l
    then obtain i where i: "i < Suc (length rest)"
      and q: "Q ((a # b # c # rest) ! i) ((b # c # rest) ! i) ((c # rest) ! i)" by auto
    show ?r
    proof (cases i)
      case 0
      with q show ?thesis by simp
    next
      case (Suc j)
      with i q show ?thesis by auto
    qed
  next
    assume ?r
    then show ?l
    proof
      assume "Q a b c"
      then show ?l by (intro bexI [of _ 0]) simp_all
    next
      assume "\<exists>i \<in> {0 ..< length rest}. Q ((b # c # rest) ! i) ((c # rest) ! i) (rest ! i)"
      then obtain j where "j < length rest" "Q ((b # c # rest) ! j) ((c # rest) ! j) (rest ! j)"
        by auto
      then show ?l by (intro bexI [of _ "Suc j"]) simp_all
    qed
  qed
  then show ?thesis by (simp add: has_window_def)
qed

lemma has_window_map:
  "has_window Q (map f p) = has_window (\<lambda>a b c. Q (f a) (f b) (f c)) p"
  by (induction p rule: test_repeated.induct) simp_all

lemma has_window_cong:
  "(\<And>a b c. Q a b c = R a b c) \<Longrightarrow> has_window Q p = has_window R p"
  by (simp add: has_window_def)

lemma test_repeated_window:
  "test_repeated p = has_window (\<lambda>a b c. dot_matches a \<and> b = a \<and> c = a) p"
  by (induction p rule: test_repeated.induct) simp_all

lemma regex_alt_test_window:
  assumes "\<forall>w \<in> set alts. length w = 3"
  shows "regex_alt_test alts p = has_window (\<lambda>a b c. [a, b, c] \<in> set alts) p"
proof (induction p rule: test_repeated.induct)
  case (1 a b c rest)
  have "list_ex (\<lambda>w. starts_with w (a # b # c # rest)) alts = ([a, b, c] \<in> set alts)"
    using assms by (auto simp add: list_ex_iff starts_with_def)
  with 1 show ?case by simp
qed (use assms in \<open>auto simp add: list_ex_iff starts_with_def\<close>)

lemma numbers_table:
  "sequential_numbers = map (\<lambda>k. [48 + k, 49 + k, 50 + k]) [0 ..< 8] @ [js ''890'']"
  by (simp add: sequential_numbers_def js_def upt_rec)

lemma letters_table:
  "map (map canonicalize) sequential_letters = map (\<lambda>k. [65 + k, 66 + k, 67 + k]) [0 ..< 24]"
  by (simp add: sequential_letters_def js_def canonicalize_def upt_rec)

lemma numbers_member:
  "([a, b, c] \<in> set sequential_numbers)
     = ((is_digit a \<and> is_digit c \<and> b = a + 1 \<and> c = a + 2) \<or> [a, b, c] = js ''890'')"
proof -
  have "([a, b, c] \<in> (\<lambda>k. [48 + k, 49 + k, 50 + k]) ` {0 ..< 8})
      = (is_digit a \<and> is_digit c \<and> b = a + 1 \<and> c = a + 2)"
  proof
    assume "[a, b, c] \<in> (\<lambda>k. [48 + k, 49 + k, 50 + k]) ` {0 ..< 8}"
    then obtain k where "k < 8" "a = 48 + k" "b = 49 + k" "c = 50 + k" by auto
    then show "is_digit a \<and> is_digit c \<and> b = a + 1 \<and> c = a + 2"
      by (simp add: is_digit_def)
  next
    assume h: "is_digit a \<and> is_digit c \<and> b = a + 1 \<and> c = a + 2"
    then have "a - 48 < 8" "a = 48 + (a - 48)" "b = 49 + (a - 48)" "c = 50 + (a - 48)"
      by (auto simp add: is_digit_def)
    then have "[a, b, c] = (\<lambda>k. [48 + k, 49 + k, 50 + k]) (a - 48)" by simp
    with \<open>a - 48 < 8\<close> show "[a, b, c] \<in> (\<lambda>k. [48 + k, 49 + k, 50 + k]) ` {0 ..< 8}"
      by (intro image_eqI [of _ _ "a - 48"]) simp_all
  qed
  then show ?thesis by (auto simp add: numbers_table simp del: upt_Suc)
qed

lemma letters_member:
  "([canonicalize a, canonicalize b, canonicalize c] \<in> set (map (map canonicalize) sequential_letters))
     = (case letter_index a of
          None \<Rightarrow> False
        | Some k \<Rightarrow> letter_index b = Some (k + 1) \<and> letter_index c = Some (k + 2))"
proof -
  let ?x = "canonicalize a" and ?y = "canonicalize b" and ?z = "canonicalize c"
  have m: "([?x, ?y, ?z] \<in> (\<lambda>k. [65 + k, 66 + k, 67 + k]) ` {0 ..< 24})
      = (65 \<le> ?x \<and> ?x \<le> 88 \<and> ?y = ?x + 1 \<and> ?z = ?x + 2)"
  proof
    assume "[?x, ?y, ?z] \<in> (\<lambda>k. [65 + k, 66 + k, 67 + k]) ` {0 ..< 24}"
    then obtain k where "k < 24" "?x = 65 + k" "?y = 66 + k" "?z = 67 + k" by auto
    then show "65 \<le> ?x \<and> ?x \<le> 88 \<and> ?y = ?x + 1 \<and> ?z = ?x + 2" by simp
  next
    assume h: "65 \<le> ?x \<and> ?x \<le> 88 \<and> ?y = ?x + 1 \<and> ?z = ?x + 2"
    then have k: "?x - 65 < 24" and "?x = 65 + (?x - 65)" "?y = 66 + (?x - 65)" "?z = 67 + (?x - 65)"
      by auto
    then have "[?x, ?y, ?z] = (\<lambda>k. [65 + k, 66 + k, 67 + k]) (?x - 65)" by simp
    with k show "[?x, ?y, ?z] \<in> (\<lambda>k. [65 + k, 66 + k, 67 + k]) ` {0 ..< 24}"
      by (intro image_eqI [of _ _ "?x - 65"]) simp_all
  qed
  have l: "(65 \<le> ?x \<and> ?x \<le> 88 \<and> ?y = ?x + 1 \<and> ?z = ?x + 2)
      = (case letter_index a of
          None \<Rightarrow> False
        | Some k \<Rightarrow> letter_index b = Some (k + 1) \<and> letter_index c = Some (k + 2))"
    by (auto simp add: letter_index_def canonicalize_def is_lower_def is_upper_def
        split: if_splits)
  show ?thesis
    using m l by (simp add: letters_table del: upt_Suc)
qed

lemma numbers_length: "\<forall>w \<in> set sequential_numbers. length w = 3"
  by (simp add: sequential_numbers_def js_def)

lemma letters_length: "\<forall>w \<in> set (map (map canonicalize) sequential_letters). length w = 3"
  by (simp add: sequential_letters_def js_def)

lemma has_window_or:
  "has_window (\<lambda>a b c. Q a b c \<or> R a b c) p = (has_window Q p \<or> has_window R p)"
  by (auto simp add: has_window_def)

lemma hasSequentialNumbers_spec:
  "hasSequentialNumbers p = (has_ascending_digit_run p \<or> has_890 p)"
  by (simp add: hasSequentialNumbers_def regex_alt_test_window [OF numbers_length]
      numbers_member has_window_or has_ascending_digit_run_def has_890_def)

lemma hasSequentialLetters_spec: "hasSequentialLetters p = has_ascending_letter_run p"
proof -
  have "hasSequentialLetters p
      = has_window (\<lambda>a b c. [a, b, c] \<in> set (map (map canonicalize) sequential_letters))
          (map canonicalize p)"
    by (simp only: hasSequentialLetters_def regex_alt_test_i_def
        regex_alt_test_window [OF letters_length])
  also have "\<dots> = has_window (\<lambda>a b c. [canonicalize a, canonicalize b, canonicalize c]
      \<in> set (map (map canonicalize) sequential_letters)) p"
    by (rule has_window_map)
  also have "\<dots> = has_ascending_letter_run p"
    unfolding has_ascending_letter_run_def by (rule has_window_cong) (rule letters_member)
  finally show ?thesis .
qed

lemma hasRepeatedChars_spec:
  assumes "\<forall>c \<in> set p. \<not> is_line_terminator c"
  shows "hasRepeatedChars p = has_triple_repeat p"
proof -
  have "has_window (\<lambda>a b c. dot_matches a \<and> b = a \<and> c = a) p
      = has_window (\<lambda>a b c. b = a \<and> c = a) p"
    using assms
    by (auto simp add: has_window_def dot_matches_def is_line_terminator_def)
  then show ?thesis
    by (simp add: hasRepeatedChars_def test_repeated_window has_triple_repeat_def)
qed

lemma hasRepeatedChars_exact: "hasRepeatedChars p = has_plain_triple_repeat p"
proof -
  have "dot_matches a = (\<not> is_line_terminator a)" for a
    by (simp add: dot_matches_def is_line_terminator_def)
  then show ?thesis
    by (simp add: hasRepeatedChars_def test_repeated_window has_plain_triple_repeat_def)
qed

lemma hasRepeatedChars_imp: "hasRepeatedChars p \<Longrightarrow> has_triple_repeat p"
  by (auto simp add: hasRepeatedChars_def test_repeated_window has_triple_repeat_def has_window_def)

lemma patternPenalties_sum:
  "patternPenalties p s =
     s - (if hasRepeatedChars p then 10 else 0) - (if hasSequentialNumbers p then 10 else 0)
       - (if hasSequentialLetters p then 10 else 0)"
  by (simp add: patternPenalties_def Let_def)

lemma penalties_independent:
  "\<exists>q. q \<noteq> [] \<and> hasRepeatedChars q = x \<and> hasSequentialNumbers q = y \<and> hasSequentialLetters q = z"
proof -
  have 1: "js ''x'' \<noteq> [] \<and> \<not> hasRepeatedChars (js ''x'') \<and> \<not> hasSequentialNumbers (js ''x'')
      \<and> \<not> hasSequentialLetters (js ''x'')" by (simp add: pattern_defs)
  have 2: "js ''aaa'' \<noteq> [] \<and> hasRepeatedChars (js ''aaa'') \<and> \<not> hasSequentialNumbers (js ''aaa'')
      \<and> \<not> hasSequentialLetters (js ''aaa'')" by (simp add: pattern_defs)
  have 3: "js ''123'' \<noteq> [] \<and> \<not> hasRepeatedChars (js ''123'') \<and> hasSequentialNumbers (js ''123'')
      \<and> \<not> hasSequentialLetters (js ''123'')" by (simp add: pattern_defs)
  have 4: "js ''aBc'' \<noteq> [] \<and> \<not> hasRepeatedChars (js ''aBc'') \<and> \<not> hasSequentialNumbers (js ''aBc'')
      \<and> hasSequentialLetters (js ''aBc'')" by (simp add: pattern_defs)
  have 5: "js ''aaa123'' \<noteq> [] \<and> hasRepeatedChars (js ''aaa123'')
      \<and> hasSequentialNumbers (js ''aaa123'') \<and> \<not> hasSequentialLetters (js ''aaa123'')"
    by (simp add: pattern_defs)
  have 6: "js ''aaabc'' \<noteq> [] \<and> hasRepeatedChars (js ''aaabc'')
      \<and> \<not> hasSequentialNumbers (js ''aaabc'') \<and> hasSequentialLetters (js ''aaabc'')"
    by (simp add: pattern_defs)
  have 7: "js ''abc123'' \<noteq> [] \<and> \<not> hasRepeatedChars (js ''abc123'')
      \<and> hasSequentialNumbers (js ''abc123'') \<and> hasSequentialLetters (js ''abc123'')"
    by (simp add: pattern_defs)
  have 8: "js ''aaabc123'' \<noteq> [] \<and> hasRepeatedChars (js ''aaabc123'')
      \<and> hasSequentialNumbers (js ''aaabc123'') \<and> hasSequentialLetters (js ''aaabc123'')"
    by (simp add: pattern_defs)
  show ?thesis
    by (cases x; cases y; cases z) (use 1 2 3 4 5 6 7 8 in blast)+
qed

text \<open>The dot does not match a line terminator, so three line feeds in a row are not
  penalised as a repetition.\<close>

lemma newline_triple_not_penalised:
  "has_triple_repeat [10, 10, 10] \<and> \<not> hasRepeatedChars [10, 10, 10]
   \<and> patternPenalties [10, 10, 10] 0 = 0"
  by (simp add: has_triple_repeat_def patternPenalties_def pattern_defs)

section \<open>The claims\<close>

subsection \<open>C1: the override for a breached password\<close>

text \<open>
  Claim C1. For every non-empty password that the breach checker reports as breached
  (whatever the count, so in particular with a count above 0), the analysis that the
  handler returns has the score min(score before the breach step, 30), hence at most 30;
  its tier is set by the two-level rule (Weak from 25 on, Very Weak below) and not by the
  six-level table; and the breach warning is the first suggestion, in front of the
  suggestions of the analysis.
\<close>

theorem C1_breach_override:
  assumes "password \<noteq> []" and "body_password req = Some password"
    and "checkPasswordBreach env w password = (breachInfo, w1)"
    and "info_isBreached breachInfo"
    and "handlePasswordAnalysis env w req = (Json a, w')"
  shows "score a = min (score (analyzePassword password)) 30
     \<and> score a \<le> 30
     \<and> strength a = (if score a \<ge> 25 then Weak else VeryWeak)
     \<and> suggestions a =
         breachWarning env (info_count breachInfo) # suggestions (analyzePassword password)
     \<and> isBreached a = Some True \<and> breachCount a = Some (info_count breachInfo)"
proof -
  from handle_nonempty [OF assms(2) assms(1) assms(3)] assms(5)
  have "a = applyBreachInfo env breachInfo (analyzePassword password)"
    by (simp split: if_splits)
  with assms(4) show ?thesis by (simp add: apply_breached)
qed

theorem C1_witness:
  "\<exists>a w'. handlePasswordAnalysis demo_env warm_world (demo_request (js ''-_-_-_-_'')) = (Json a, w')
     \<and> score (analyzePassword (js ''-_-_-_-_'')) = 20
     \<and> score a = 20 \<and> strength a = VeryWeak \<and> tier_of_score (score a) = Weak
     \<and> hd (suggestions a) = breachWarning demo_env (Num 3)
     \<and> isBreached a = Some True \<and> breachCount a = Some (Num 3)"
proof -
  have ne: "js ''-_-_-_-_'' \<noteq> []" by (simp add: js_def)
  have b: "body_password (demo_request (js ''-_-_-_-_'')) = Some (js ''-_-_-_-_'')"
    by (simp add: demo_request_def)
  have c: "checkPasswordBreach demo_env warm_world (js ''-_-_-_-_'') =
      (\<lparr>info_isBreached = True, info_count = Num 3\<rparr>, warm_world)"
    by (simp add: checkPasswordBreach_def breachLookup_def warm_world_def demo_env_def)
  let ?a = "applyBreachInfo demo_env \<lparr>info_isBreached = True, info_count = Num 3\<rparr>
        (analyzePassword (js ''-_-_-_-_''))"
  have h: "handlePasswordAnalysis demo_env warm_world (demo_request (js ''-_-_-_-_'')) =
      (Json ?a, warm_world)"
    by (rule demo_handle [OF ne c])
  from C1_breach_override [OF ne b c _ h] h
  show ?thesis
    by (simp add: dashes_score tier_of_score_def tier_thresholds_def)
qed

subsection \<open>C2: score range and tier\<close>

text \<open>
  Claim C2. For every password the score is between 0 and 100, before and after the
  breach step; unless the password is reported as breached, the tier is the one that the
  six-level table (90 Very Strong, 75 Strong, 60 Good, 40 Fair, 20 Weak, else Very Weak,
  first match) gives for the score; and that table is monotonic: a higher score never has
  a lower tier.
\<close>

theorem C2_score_range_and_tier:
  "0 \<le> score (analyzePassword p) \<and> score (analyzePassword p) \<le> 100
   \<and> strength (analyzePassword p) = tier_of_score (score (analyzePassword p))
   \<and> (handlePasswordAnalysis env w req = (Json a, w') \<longrightarrow>
        0 \<le> score a \<and> score a \<le> 100
        \<and> (isBreached a \<noteq> Some True \<longrightarrow> strength a = tier_of_score (score a)))
   \<and> (s1 \<le> s2 \<longrightarrow> tier_rank (tier_of_score s1) \<le> tier_rank (tier_of_score s2))"
proof -
  have h: "0 \<le> score a \<and> score a \<le> 100
        \<and> (isBreached a \<noteq> Some True \<longrightarrow> strength a = tier_of_score (score a))"
    if j: "handlePasswordAnalysis env w req = (Json a, w')"
  proof -
    from handle_json [OF j] obtain p where p: "body_password req = Some p"
      and e: "p = [] \<Longrightarrow> a = analyzePassword p \<and> w' = w"
      and n: "p \<noteq> [] \<Longrightarrow> a = applyBreachInfo env (fst (checkPasswordBreach env w p)) (analyzePassword p)
            \<and> w' = snd (checkPasswordBreach env w p)"
      by (auto split: if_splits)
    show ?thesis
    proof (cases "p = []")
      case True
      with e show ?thesis using analyze_score_range [of p] analyze_tier [of p] by simp
    next
      case False
      define info where "info = fst (checkPasswordBreach env w p)"
      from n False have a: "a = applyBreachInfo env info (analyzePassword p)"
        by (simp add: info_def)
      show ?thesis
      proof (cases "info_isBreached info")
        case True
        then show ?thesis
          using analyze_score_range [of p] by (simp add: a apply_breached)
      next
        case False
        then show ?thesis
          using analyze_score_range [of p] analyze_tier [of p] by (simp add: a apply_not_breached)
      qed
    qed
  qed
  show ?thesis
    using analyze_score_range [of p] analyze_tier [of p] h tier_mono [of s1 s2] by blast
qed

theorem C2_witness:
  "score (analyzePassword (js ''password'')) \<le> 100
   \<and> strength (analyzePassword (js ''password'')) = tier_of_score (score (analyzePassword (js ''password'')))
   \<and> (\<exists>a w'. handlePasswordAnalysis demo_env empty_world (demo_request (js ''-_-_-_-_'')) = (Json a, w')
        \<and> isBreached a \<noteq> Some True \<and> 0 \<le> score a \<and> score a \<le> 100
        \<and> strength a = tier_of_score (score a))
   \<and> (39::int) \<le> 40 \<and> tier_rank (tier_of_score 39) \<le> tier_rank (tier_of_score 40)"
proof -
  have ne: "js ''-_-_-_-_'' \<noteq> []" by (simp add: js_def)
  let ?a = "applyBreachInfo demo_env \<lparr>info_isBreached = False, info_count = Num 0\<rparr>
        (analyzePassword (js ''-_-_-_-_''))"
  let ?w = "\<lparr>breachCache = [js ''-_-_-_-_'' \<mapsto>
          \<lparr>cached_isBreached = False, cached_count = Num 0, timestamp = 1001\<rparr>],
       fetched = [js ''00000'']\<rparr>"
  have h: "handlePasswordAnalysis demo_env empty_world (demo_request (js ''-_-_-_-_'')) = (Json ?a, ?w)"
    by (rule demo_handle [OF ne demo_clean_password])
  have n: "isBreached ?a \<noteq> Some True" by (simp add: apply_not_breached)
  from C2_score_range_and_tier [of "js ''password''" demo_env empty_world
      "demo_request (js ''-_-_-_-_'')" ?a ?w 39 40] h n
  show ?thesis by simp
qed


subsection \<open>C3: a failing breach lookup\<close>

text \<open>
  Claim C3. For every password, when the breach lookup meets a network error, a
  non-success status or a parsing error, \<^verbatim>\<open>checkPasswordBreach\<close> returns not breached with
  count 0, and the handler still answers with the complete analysis. The code does so
  for every failure at which it throws (\<open>thrown_errors_swallowed\<close>), but not for a count
  that is not a number: with the response line \<^verbatim>\<open>1E4C9B93F3F0682250B6CF8331B7EE68FD8:many\<close>
  for the password \<^verbatim>\<open>password\<close>, \<^verbatim>\<open>parseInt\<close> returns NaN without an exception, and the
  password is reported as breached with count NaN; the entry is cached, and the handler
  caps the score and puts the warning in front of the suggestions.
\<close>

theorem C3_unparsable_count_reported:
  "\<not> cacheFresh garbled_env empty_world (js ''password'')
   \<and> lookupError garbled_env (js ''password'')
   \<and> fst (checkPasswordBreach garbled_env empty_world (js ''password''))
       = \<lparr>info_isBreached = True, info_count = NaN\<rparr>
   \<and> fst (checkPasswordBreach garbled_env empty_world (js ''password''))
       \<noteq> \<lparr>info_isBreached = False, info_count = Num 0\<rparr>
   \<and> breachCache (snd (checkPasswordBreach garbled_env empty_world (js ''password'')))
         (js ''password'')
       = Some \<lparr>cached_isBreached = True, cached_count = NaN, timestamp = 1001\<rparr>
   \<and> fst (handlePasswordAnalysis garbled_env empty_world (demo_request (js ''password'')))
       = Json (applyBreachInfo garbled_env \<lparr>info_isBreached = True, info_count = NaN\<rparr>
                 (analyzePassword (js ''password'')))
   \<and> isBreached (applyBreachInfo garbled_env \<lparr>info_isBreached = True, info_count = NaN\<rparr>
                 (analyzePassword (js ''password''))) = Some True
   \<and> breachCount (applyBreachInfo garbled_env \<lparr>info_isBreached = True, info_count = NaN\<rparr>
                 (analyzePassword (js ''password''))) = Some NaN"
proof -
  have 1: "\<not> cacheFresh garbled_env empty_world (js ''password'')"
    by (simp add: cacheFresh_def empty_world_def)
  have 2: "lookupError garbled_env (js ''password'')"
    by (simp add: lookupError_def parsingError_def garbled_env_def demo_defs)
  have 3: "checkPasswordBreach garbled_env empty_world (js ''password'') =
      (\<lparr>info_isBreached = True, info_count = NaN\<rparr>,
       \<lparr>breachCache = [js ''password'' \<mapsto>
           \<lparr>cached_isBreached = True, cached_count = NaN, timestamp = 1001\<rparr>],
        fetched = [js ''5BAA6'']\<rparr>)"
    by (simp add: garbled_env_def demo_defs)
  have ne: "js ''password'' \<noteq> []" by (simp add: js_def)
  have b: "body_password (demo_request (js ''password'')) = Some (js ''password'')"
    by (simp add: demo_request_def)
  have 4: "fst (handlePasswordAnalysis garbled_env empty_world (demo_request (js ''password'')))
      = Json (applyBreachInfo garbled_env \<lparr>info_isBreached = True, info_count = NaN\<rparr>
                 (analyzePassword (js ''password'')))"
    by (simp add: handle_nonempty [OF b ne 3])
      (simp add: garbled_env_def demo_env_def demo_request_def)
  show ?thesis
    using 1 2 4 by (simp add: 3 apply_breached)
qed

theorem C3_unparsable_count_witness:
  "lookupError garbled_env (js ''password'')
   \<and> info_isBreached (fst (checkPasswordBreach garbled_env empty_world (js ''password'')))
   \<and> info_count (fst (checkPasswordBreach garbled_env empty_world (js ''password''))) = NaN"
  using C3_unparsable_count_reported by simp

subsection \<open>C4: the empty password\<close>

text \<open>
  Claim C4. For the empty password the analysis is the canned result: score 0, tier Very
  Weak, entropy 0, exactly one suggestion, every check false, and neither breach field
  set. The handler performs no breach lookup for it: it returns that result (or a server
  error when the persistence call throws) and leaves the cache and the list of requests to
  the range endpoint as they were.
\<close>

theorem C4_empty_password:
  "score (analyzePassword []) = 0
   \<and> strength (analyzePassword []) = VeryWeak
   \<and> entropy (analyzePassword []) = 0
   \<and> length (suggestions (analyzePassword [])) = 1
   \<and> checks (analyzePassword []) =
        \<lparr>hasLength = False, hasUppercase = False, hasLowercase = False, hasNumbers = False,
         hasSpecialChars = False, isCommon = False\<rparr>
   \<and> isBreached (analyzePassword []) = None \<and> breachCount (analyzePassword []) = None
   \<and> (body_password req = Some [] \<longrightarrow>
        handlePasswordAnalysis env w req =
          (if passwordCheckDb_log env (user_id req) [] (analyzePassword [])
           then Json (analyzePassword []) else InternalServerError, w))"
proof -
  have e: "analyzePassword [] = emptyResult" by (simp add: analyzePassword_def)
  show ?thesis
    using handle_empty [of req env w] by (simp add: e) (simp add: emptyResult_def)
qed

theorem C4_witness:
  "body_password (demo_request []) = Some []
   \<and> handlePasswordAnalysis demo_env empty_world (demo_request []) =
       (Json (analyzePassword []), empty_world)
   \<and> fetched empty_world = [] \<and> breachCache empty_world = Map.empty
   \<and> score (analyzePassword []) = 0"
  using C4_empty_password [of "demo_request []" demo_env empty_world]
  by (simp add: demo_request_def demo_env_def empty_world_def)

subsection \<open>C5: long passwords with all four classes\<close>

text \<open>
  Claim C5. Every password of length at least 16 that has a lower-case letter, an
  upper-case letter, a digit and a special symbol, whose lower-cased form is not on the
  denylist, and that triggers none of the three pattern penalties, has a score of at least
  75 and the tier Strong or Very Strong.
\<close>

theorem C5_long_four_class_password:
  assumes "length p \<ge> 16"
    and "\<exists>c \<in> set p. is_lower c" and "\<exists>c \<in> set p. is_upper c"
    and "\<exists>c \<in> set p. is_digit c" and "\<exists>c \<in> set p. is_special c"
    and "\<not> List.member COMMON_PASSWORDS (toLowerCase p)"
    and "\<not> hasRepeatedChars p" and "\<not> hasSequentialNumbers p" and "\<not> hasSequentialLetters p"
  shows "score (analyzePassword p) \<ge> 75
     \<and> (strength (analyzePassword p) = Strong \<or> strength (analyzePassword p) = VeryStrong)"
proof -
  from assms(1) have ne: "p \<noteq> []" by auto
  have c: "characterTypeScoring (computeChecks p) s = s + 65" for s
    using assms(2-5)
    by (simp add: characterTypeScoring_def computeChecks_def regex_class_test_def list_ex_iff Let_def)
  have k: "commonPenalty (computeChecks p) s = s" for s
    using assms(6) by (simp add: commonPenalty_def computeChecks_def)
  have q: "patternPenalties p s = s" for s
    using assms(7-9) by (simp add: patternPenalties_def Let_def)
  have "rawScore p \<ge> 105"
    using lengthScoring_16 [OF assms(1), of 0]
      entropyBonus_ge [of "lengthScoring (computeChecks p) p 0 + 65" "calculateEntropy p"]
    by (simp add: rawScore_unfold c k q)
  then have s: "score (analyzePassword p) = 100"
    by (simp add: analyze_score [OF ne])
  then show ?thesis
    by (simp add: analyze_strength [OF ne] determineStrength_def)
qed

theorem C5_witness:
  "length (js ''Xk7!Xk7!Xk7!Xk7!'') \<ge> 16
   \<and> score (analyzePassword (js ''Xk7!Xk7!Xk7!Xk7!'')) \<ge> 75
   \<and> (strength (analyzePassword (js ''Xk7!Xk7!Xk7!Xk7!'')) = Strong
       \<or> strength (analyzePassword (js ''Xk7!Xk7!Xk7!Xk7!'')) = VeryStrong)"
proof -
  have 1: "length (js ''Xk7!Xk7!Xk7!Xk7!'') \<ge> 16" by (simp add: js_def)
  have 2: "\<exists>c \<in> set (js ''Xk7!Xk7!Xk7!Xk7!''). is_lower c"
    "\<exists>c \<in> set (js ''Xk7!Xk7!Xk7!Xk7!''). is_upper c"
    "\<exists>c \<in> set (js ''Xk7!Xk7!Xk7!Xk7!''). is_digit c"
    "\<exists>c \<in> set (js ''Xk7!Xk7!Xk7!Xk7!''). is_special c"
    by (simp_all add: class_defs)
  have 3: "\<not> List.member COMMON_PASSWORDS (toLowerCase (js ''Xk7!Xk7!Xk7!Xk7!''))"
    by (simp add: COMMON_PASSWORDS_def toLowerCase_def js_def)
  have 4: "\<not> hasRepeatedChars (js ''Xk7!Xk7!Xk7!Xk7!'')"
    "\<not> hasSequentialNumbers (js ''Xk7!Xk7!Xk7!Xk7!'')"
    "\<not> hasSequentialLetters (js ''Xk7!Xk7!Xk7!Xk7!'')"
    by (simp_all add: pattern_defs)
  from C5_long_four_class_password [OF 1 2 3 4] 1 show ?thesis by simp
qed

subsection \<open>C6: the structural penalties\<close>

text \<open>
  Claim C6, as stated, fails: the digit penalty is also applied for the triple
  \<^verbatim>\<open>890\<close>, which is in the source's list of sequences and is no ascending run.
\<close>

theorem C6_counterexample:
  "js ''890'' \<noteq> []
   \<and> hasSequentialNumbers (js ''890'')
   \<and> \<not> hasRepeatedChars (js ''890'') \<and> \<not> hasSequentialLetters (js ''890'')
   \<and> patternPenalties (js ''890'') 0 = - 10
   \<and> \<not> has_ascending_digit_run (js ''890'')"
  by (simp add: patternPenalties_def has_ascending_digit_run_def is_digit_def pattern_defs)

text \<open>
  Claim C6, amended. For every non-empty password the score is the clamped sum in which
  each of the three structural penalties takes 10 off exactly when its test holds, and:
  the repetition test holds exactly when some code unit that is not a line terminator
  (LF, CR, U+2028, U+2029) occurs three times in a row, hence only when some code unit
  does; the digit test holds exactly when the password
  contains three digits in ascending order, each one more than the one before, or the
  triple \<^verbatim>\<open>890\<close>; the letter test holds exactly when the password contains three letters
  in ascending alphabetic order, each the next after the one before, in any mix of cases;
  and every combination of the three tests is met by some non-empty password.
\<close>

theorem C6_pattern_penalties:
  assumes "p \<noteq> []"
  shows "score (analyzePassword p) =
       max 0 (min 100 (patternPenalties p (entropyBonus (calculateEntropy p)
         (commonPenalty (computeChecks p) (characterTypeScoring (computeChecks p)
            (lengthScoring (computeChecks p) p 0))))))
     \<and> patternPenalties p s =
         s - (if hasRepeatedChars p then 10 else 0) - (if hasSequentialNumbers p then 10 else 0)
           - (if hasSequentialLetters p then 10 else 0)
     \<and> hasRepeatedChars p = has_plain_triple_repeat p
     \<and> (hasRepeatedChars p \<longrightarrow> has_triple_repeat p)
     \<and> hasSequentialNumbers p = (has_ascending_digit_run p \<or> has_890 p)
     \<and> hasSequentialLetters p = has_ascending_letter_run p
     \<and> (\<exists>q. q \<noteq> [] \<and> hasRepeatedChars q = x \<and> hasSequentialNumbers q = y
              \<and> hasSequentialLetters q = z)"
proof -
  have "score (analyzePassword p) =
       max 0 (min 100 (patternPenalties p (entropyBonus (calculateEntropy p)
         (commonPenalty (computeChecks p) (characterTypeScoring (computeChecks p)
            (lengthScoring (computeChecks p) p 0))))))"
    by (simp only: analyze_score [OF assms] rawScore_unfold)
  moreover note patternPenalties_sum [of p s]
  moreover note hasRepeatedChars_exact [of p]
  moreover have "hasRepeatedChars p \<longrightarrow> has_triple_repeat p"
    using hasRepeatedChars_imp [of p] by blast
  moreover note hasSequentialNumbers_spec [of p] hasSequentialLetters_spec [of p]
    penalties_independent [of x y z]
  ultimately show ?thesis by blast
qed

theorem C6_witness:
  "js ''aaa'' @ [10] @ js ''890xyZ'' \<noteq> []
   \<and> list_ex is_line_terminator (js ''aaa'' @ [10] @ js ''890xyZ'')
   \<and> hasRepeatedChars (js ''aaa'' @ [10] @ js ''890xyZ'')
   \<and> has_plain_triple_repeat (js ''aaa'' @ [10] @ js ''890xyZ'')
   \<and> has_triple_repeat (js ''aaa'' @ [10] @ js ''890xyZ'')
   \<and> hasSequentialNumbers (js ''aaa'' @ [10] @ js ''890xyZ'')
   \<and> has_890 (js ''aaa'' @ [10] @ js ''890xyZ'')
   \<and> hasSequentialLetters (js ''aaa'' @ [10] @ js ''890xyZ'')
   \<and> has_ascending_letter_run (js ''aaa'' @ [10] @ js ''890xyZ'')
   \<and> patternPenalties (js ''aaa'' @ [10] @ js ''890xyZ'') 0 = - 30"
proof -
  let ?p = "js ''aaa'' @ [10] @ js ''890xyZ''"
  have 1: "?p \<noteq> []" by (simp add: js_def)
  have 2: "list_ex is_line_terminator ?p"
    by (simp add: js_def is_line_terminator_def)
  have 3: "hasRepeatedChars ?p" "has_890 ?p" "hasSequentialLetters ?p"
    by (simp_all add: has_890_def pattern_defs)
  from C6_pattern_penalties [OF 1, of 0] 1 2 3 show ?thesis by simp
qed

subsection \<open>C7: the entropy formula\<close>

text \<open>
  Claim C7. For every password the computed entropy is the length times the binary
  logarithm of the character space, where the character space is the sum of the sizes
  26, 26, 10 and 32 of the classes present in the password (lower case, upper case, digit,
  special symbol); when no class is present the character space is 0 and the entropy is 0,
  the logarithm being taken of 1 instead. Entropy is a real number here.
\<close>

theorem C7_entropy_formula:
  "calculateEntropy p =
     (if charspace_spec p = 0 then 0
      else real (length p) * log 2 (real (charspace_spec p)))"
  by (simp add: calculateEntropy_def charSpaceOf_spec)

theorem C7_entropy_formula_witness:
  "charspace_spec (js ''aB3!'') = 94 \<and> calculateEntropy (js ''aB3!'') = 4 * log 2 94
   \<and> charspace_spec (js ''- _'') = 0 \<and> calculateEntropy (js ''- _'') = 0"
  using C7_entropy_formula [of "js ''aB3!''"] C7_entropy_formula [of "js ''- _''"]
  by (simp add: charspace_spec_def class_defs)

subsection \<open>C8: the crack-time estimator\<close>

text \<open>
  Claim C8, as stated, fails: at entropy 1024 the power of 2 overflows, so the seconds
  returned are \<^verbatim>\<open>Infinity\<close> and not (2^1024 / 2) / 10^9.
\<close>

theorem C8_counterexample:
  "(0::real) \<le> 1024
   \<and> seconds (calculateCrackTime 1024) = Infinity
   \<and> seconds (calculateCrackTime 1024) \<noteq> Finite ((2 powr 1024 / 2) / 10 ^ 9)"
  by (simp add: crack_overflow)

text \<open>
  Claim C8, amended. For every entropy below 1024 the estimator returns the seconds
  (2^entropy / 2) / 10^9, and the display that the table of ascending limits gives for
  these seconds: Instantly below 1 second, then whole seconds, minutes, hours, days,
  months, years and decades below 60, 3600, 86400, 2629746, 31556952, 315569520 and
  3155695200 seconds, and Centuries from there on; the count displayed is the seconds
  divided by the unit and rounded to the nearest integer. From entropy 1024 on the seconds
  returned are \<^verbatim>\<open>Infinity\<close> and the display is Centuries.
\<close>

theorem C8_crack_time:
  "(e < 1024 \<longrightarrow>
      seconds (calculateCrackTime e) = Finite ((2 powr e / 2) / 10 ^ 9)
      \<and> display (calculateCrackTime e) = crack_display_spec ((2 powr e / 2) / 10 ^ 9))
   \<and> (1024 \<le> e \<longrightarrow>
      seconds (calculateCrackTime e) = Infinity
      \<and> display (calculateCrackTime e) = js ''Centuries'')
   \<and> \<bar>real_of_int (Math_round x) - x\<bar> \<le> 1 / 2"
proof -
  have "1024 \<le> e \<longrightarrow>
      seconds (calculateCrackTime e) = Infinity
      \<and> display (calculateCrackTime e) = js ''Centuries''"
    by (simp add: crack_overflow)
  with crack_seconds [of e] crack_display [of e] Math_round_nearest [of x]
  show ?thesis by blast
qed

theorem C8_witness:
  "(40::real) < 1024
   \<and> seconds (calculateCrackTime 40) = Finite 549.755813888
   \<and> crack_display_spec 549.755813888 = js ''9 minutes''
   \<and> display (calculateCrackTime 40) = js ''9 minutes''
   \<and> (1024::real) \<le> 2000
   \<and> seconds (calculateCrackTime 2000) = Infinity
   \<and> display (calculateCrackTime 2000) = js ''Centuries''"
proof -
  have c: "crack_display_spec 549.755813888 = js ''9 minutes''"
    by (simp add: crack_display_spec_def crack_buckets_def Math_round_def
        number_to_string_def digits_of.simps js_def)
  have v: "(2 powr 40 / 2) / 10 ^ 9 = (549.755813888::real)" by simp
  have s: "seconds (calculateCrackTime 40) = Finite 549.755813888"
    using C8_crack_time [of 40] by simp
  have "display (calculateCrackTime 40) = crack_display_spec ((2 powr 40 / 2) / 10 ^ 9)"
    using C8_crack_time [of 40] by simp
  then have d: "display (calculateCrackTime 40) = js ''9 minutes''"
    by (simp only: v c)
  from C8_crack_time [of 2000] s c d show ?thesis by simp
qed

subsection \<open>C9: the password \<open>password\<close>\<close>

text \<open>
  Claim C9. The password \<^verbatim>\<open>password\<close> is on the denylist and is all lower case: it gets
  20 for its length and 15 for lower case, loses 40 as a common password, so the sum is
  -5, which is clamped to the score 0; its tier is Very Weak and its suggestions include
  \<^verbatim>\<open>Avoid common passwords\<close>.
\<close>

theorem C9_password:
  "lengthScoring (computeChecks (js ''password'')) (js ''password'') 0 = 20
   \<and> characterTypeScoring (computeChecks (js ''password'')) 20 = 35
   \<and> commonPenalty (computeChecks (js ''password'')) 35 = - 5
   \<and> rawScore (js ''password'') = - 5
   \<and> score (analyzePassword (js ''password'')) = 0
   \<and> strength (analyzePassword (js ''password'')) = VeryWeak
   \<and> js ''Avoid common passwords'' \<in> set (suggestions (analyzePassword (js ''password'')))"
proof -
  have ne: "js ''password'' \<noteq> []" by (simp add: js_def)
  have l: "lengthScoring (computeChecks (js ''password'')) (js ''password'') 0 = 20"
    by (simp add: lengthScoring_def password_checks password_length)
  have c: "characterTypeScoring (computeChecks (js ''password'')) 20 = 35"
    by (simp add: characterTypeScoring_def password_checks)
  have p: "commonPenalty (computeChecks (js ''password'')) 35 = - 5"
    by (simp add: commonPenalty_def password_checks)
  have e: "entropyBonus (calculateEntropy (js ''password'')) (- 5) = - 5"
    using password_entropy_low by (simp add: entropyBonus_def)
  have q: "patternPenalties (js ''password'') (- 5) = - 5"
    by (simp add: patternPenalties_def password_patterns)
  have r: "rawScore (js ''password'') = - 5"
    by (simp add: rawScore_def l c p e q)
  have sg: "js ''Avoid common passwords''
      \<in> set (generateSuggestions (computeChecks (js ''password'')) (js ''password''))"
    by (simp add: generateSuggestions_def password_checks password_length password_patterns)
  have s: "score (analyzePassword (js ''password'')) = 0"
    by (simp add: analyze_score [OF ne] r)
  have d: "strength (analyzePassword (js ''password'')) = VeryWeak"
    by (simp add: analyze_strength [OF ne] s determineStrength_def)
  show ?thesis
    using sg by (simp add: analyze_suggestions [OF ne] l c p r s d)
qed

subsection \<open>C10: passwords without any recognised class\<close>

text \<open>
  Claim C10. The special-symbol class is exactly the twenty code units of
  \<^verbatim>\<open>!@#$%^&*(),.?":{}|<>\<close>. For every non-empty password none of whose code units is in
  one of the four classes, the character space is 0, the logarithm is taken of 1 (so it is
  never taken of 0), the entropy is 0, no character-class credit is added to the score, and
  the crack-time display is \<^verbatim>\<open>Instantly\<close>. The witness is the password made of a hyphen,
  an underscore, a plus sign, a semicolon and a space.
\<close>

theorem C10_no_class_password:
  assumes "p \<noteq> []"
    and "\<forall>c \<in> set p. \<not> is_lower c \<and> \<not> is_upper c \<and> \<not> is_digit c \<and> \<not> is_special c"
  shows "is_special c = (c \<in> set (js ''!@#$%^&*(),.?'' @ [34] @ js '':{}|<>''))
     \<and> charSpaceOf p = 0
     \<and> calculateEntropy p = real (length p) * log 2 1
     \<and> calculateEntropy p = 0
     \<and> entropy (analyzePassword p) = 0
     \<and> characterTypeScoring (computeChecks p) s = s
     \<and> crackTime (analyzePassword p) = js ''Instantly''
     \<and> display (timeToCrack (analyzePassword p)) = js ''Instantly''"
proof -
  have sp: "is_special c = (c \<in> set (js ''!@#$%^&*(),.?'' @ [34] @ js '':{}|<>''))"
    by (simp add: is_special_def special_chars_def)
  have cs: "charSpaceOf p = 0"
    using assms(2) by (simp add: charSpaceOf_def regex_class_test_def list_ex_iff)
  then have e1: "calculateEntropy p = real (length p) * log 2 1"
    by (simp add: calculateEntropy_def)
  then have e: "calculateEntropy p = 0" by simp
  have ct: "characterTypeScoring (computeChecks p) s = s"
    using assms(2)
    by (simp add: characterTypeScoring_def computeChecks_def regex_class_test_def list_ex_iff)
  show ?thesis
    using sp cs e1 ct
    by (simp add: analyze_entropy [OF assms(1)] analyze_crackTime [OF assms(1)]
        analyze_timeToCrack [OF assms(1)] e crack_instantly Math_round_def)
qed

theorem C10_witness:
  "js ''-_+; '' \<noteq> []
   \<and> \<not> list_ex is_lower (js ''-_+; '') \<and> \<not> list_ex is_upper (js ''-_+; '')
   \<and> \<not> list_ex is_digit (js ''-_+; '') \<and> \<not> list_ex is_special (js ''-_+; '')
   \<and> calculateEntropy (js ''-_+; '') = 0
   \<and> crackTime (analyzePassword (js ''-_+; '')) = js ''Instantly''"
proof -
  have 1: "js ''-_+; '' \<noteq> []" by (simp add: js_def)
  have 2: "\<forall>c \<in> set (js ''-_+; '').
      \<not> is_lower c \<and> \<not> is_upper c \<and> \<not> is_digit c \<and> \<not> is_special c"
    by (simp add: class_defs)
  from C10_no_class_password [OF 1 2] 1 2 show ?thesis by (simp add: list_ex_iff)
qed

end
